theory Spec2Isabelle
  imports Main "HOL-Library.AList" "HOL-Library.Sublist" "HOL-Library.Monad_Syntax"
begin

section \<open>MI equipment rental server: the wiki cache and the field mapper\<close>

text \<open>
  A shallow embedding of \<^verbatim>\<open>src/main.py\<close>. Python dictionaries are association lists
  with distinct keys in insertion order (\<open>AList.update\<close> replaces in place or appends, as
  a dict assignment does); the module's globals \<^verbatim>\<open>cache\<close> and \<^verbatim>\<open>last_checked_ts\<close> and
  the lines written by \<^verbatim>\<open>print\<close> are a state record that every function returns, also
  when it raises; an exception is the \<open>Inl\<close> of a sum. The wiki, the directory, the clock
  and pydantic's date parser are outside the repository and are fields of an environment
  record.
\<close>

subsection \<open>Python's string functions\<close>

text \<open>
  Strings are byte lists: a text is its UTF-8 encoding. The functions below are the
  Python built-ins the program calls, on ASCII separators and digits.
\<close>

text \<open>\<^verbatim>\<open>s.split(sep)\<close> for a one-character separator: never the empty list.\<close>

fun py_split :: "char \<Rightarrow> string \<Rightarrow> string list" where
  "py_split sep [] = [[]]"
| "py_split sep (c # cs) =
     (if c = sep then [] # py_split sep cs
      else (case py_split sep cs of
              [] \<Rightarrow> [[c]]
            | x # xs \<Rightarrow> (c # x) # xs))"

text \<open>\<^verbatim>\<open>s.replace(old, new)\<close> for a non-empty \<open>old\<close>: occurrences are replaced from the
  left and do not overlap.\<close>

function py_replace :: "string \<Rightarrow> string \<Rightarrow> string \<Rightarrow> string" where
  "py_replace old new [] = []"
| "py_replace old new (c # cs) =
     (if old \<noteq> [] \<and> prefix old (c # cs)
      then new @ py_replace old new (drop (length old) (c # cs))
      else c # py_replace old new cs)"
  by pat_completeness auto
termination
  by (relation "measure (\<lambda>(old, new, s). length s)") (auto simp: Suc_le_eq)

definition is_space :: "char \<Rightarrow> bool" where
  "is_space c = ((of_char c :: nat) \<in> {9, 10, 11, 12, 13, 28, 29, 30, 31, 32})"

definition is_digit :: "char \<Rightarrow> bool" where
  "is_digit c = (48 \<le> (of_char c :: nat) \<and> (of_char c :: nat) \<le> 57)"

definition digit_val :: "char \<Rightarrow> nat" where
  "digit_val c = of_char c - 48"

definition strip :: "string \<Rightarrow> string" where
  "strip s = rev (dropWhile is_space (rev (dropWhile is_space s)))"

text \<open>The digits of an integer literal after its first digit: single underscores may
  stand between digits.\<close>

fun int_digits :: "nat \<Rightarrow> string \<Rightarrow> nat option" where
  "int_digits acc [] = Some acc"
| "int_digits acc [c] = (if is_digit c then Some (10 * acc + digit_val c) else None)"
| "int_digits acc (c # d # ds) =
     (if is_digit c then int_digits (10 * acc + digit_val c) (d # ds)
      else if c = CHR ''_'' \<and> is_digit d then int_digits (10 * acc + digit_val d) ds
      else None)"

definition int_literal :: "string \<Rightarrow> nat option" where
  "int_literal s =
     (case s of
        [] \<Rightarrow> None
      | c # cs \<Rightarrow> if is_digit c then int_digits (digit_val c) cs else None)"

text \<open>\<^verbatim>\<open>int(s)\<close> for a string: \<open>None\<close> is the \<^verbatim>\<open>ValueError\<close>. White space around the
  literal is dropped, a sign may lead, and leading zeros are allowed. Python also accepts
  digits and white space outside ASCII; those are not covered here.\<close>

definition py_int :: "string \<Rightarrow> int option" where
  "py_int s =
     (case strip s of
        [] \<Rightarrow> None
      | c # cs \<Rightarrow>
          if c = CHR ''-'' then map_option (\<lambda>n. - int n) (int_literal cs)
          else if c = CHR ''+'' then map_option int (int_literal cs)
          else map_option int (int_literal (c # cs)))"

fun str_nat :: "nat \<Rightarrow> string" where
  "str_nat n =
     (if n < 10 then [char_of (48 + n)]
      else str_nat (n div 10) @ [char_of (48 + n mod 10)])"

text \<open>\<^verbatim>\<open>f"{uid:03d}"\<close>: zero padding to width three, the sign counted in the width.\<close>

definition format_03d :: "int \<Rightarrow> string" where
  "format_03d n =
     (let ds = str_nat (nat \<bar>n\<bar>) in
      if n < 0 then CHR ''-'' # replicate (2 - length ds) (CHR ''0'') @ ds
      else replicate (3 - length ds) (CHR ''0'') @ ds)"

text \<open>\<^verbatim>\<open>b.decode('utf-8')\<close>: the bytes must be well-formed UTF-8 (no overlong form, no
  surrogate, nothing past U+10FFFF); the text is then the same byte list.\<close>

definition in_range :: "nat \<Rightarrow> nat \<Rightarrow> char \<Rightarrow> bool" where
  "in_range lo hi c = (lo \<le> (of_char c :: nat) \<and> (of_char c :: nat) \<le> hi)"

fun utf8_valid :: "string \<Rightarrow> bool" where
  "utf8_valid [] = True"
| "utf8_valid (a # bs) =
     (if in_range 0 127 a then utf8_valid bs
      else (case bs of
        [] \<Rightarrow> False
      | b # cs \<Rightarrow>
          if in_range 194 223 a then in_range 128 191 b \<and> utf8_valid cs
          else (case cs of
            [] \<Rightarrow> False
          | c # ds \<Rightarrow>
              if in_range 224 239 a then
                (if of_char a = (224 :: nat) then in_range 160 191 b
                 else if of_char a = (237 :: nat) then in_range 128 159 b
                 else in_range 128 191 b)
                \<and> in_range 128 191 c \<and> utf8_valid ds
              else (case ds of
                [] \<Rightarrow> False
              | d # es \<Rightarrow>
                  in_range 240 244 a
                  \<and> (if of_char a = (240 :: nat) then in_range 144 191 b
                     else if of_char a = (244 :: nat) then in_range 128 143 b
                     else in_range 128 191 b)
                  \<and> in_range 128 191 c \<and> in_range 128 191 d \<and> utf8_valid es))))"


subsection \<open>Data model\<close>

datatype error =
    DokuWikiError
  | KeyError
  | IndexError
  | ValidationError
  | AssertionError
  | UnicodeDecodeError
  | LDAP_TIMEOUT
  | LDAPError

text \<open>The fields of \<^verbatim>\<open>Settings\<close> with their defaults; \<^verbatim>\<open>wiki_user\<close> and \<^verbatim>\<open>wiki_pw\<close>
  have none and come from the process environment, which may override the others too.\<close>

record Settings =
  app_name :: string
  admin_email :: string
  wiki_server :: string
  wiki_path :: string
  wiki_user :: string
  wiki_pw :: string
  ldap_server :: string
  ldap_base_dn :: string
  ldap_scope :: int
  groups_with_edit_rights :: "string list"

definition default_settings :: "string \<Rightarrow> string \<Rightarrow> Settings" where
  "default_settings user pw =
     \<lparr> app_name = ''MI Rental'',
       admin_email = ''raphael.wimmer@ur.de'',
       wiki_server = ''https://wiki.mi.ur.de'',
       wiki_path = ''lab:ausstattung:'',
       wiki_user = user,
       wiki_pw = pw,
       ldap_server = ''ldaps://ldapauth2.uni-regensburg.de:636'',
       ldap_base_dn = ''o=uni-regensburg,c=de'',
       ldap_scope = 2,
       groups_with_edit_rights =
         [''mi-staff.mi.sprachlit.uni-regensburg.de'', ''mi-shk.mi.sprachlit.uni-regensburg.de''] \<rparr>"

datatype date = Date int int int

record Item =
  uid :: "int option"
  typ' :: "string list option"
  name :: "string option"
  standort :: "string option"
  os :: "string option"
  zubehoer :: "string option"
  seriennummern :: "string option"
  status :: "string option"
  ausleiher :: "string option"
  von :: "date option"
  bis :: "date option"
  anmerkungen :: "string option"
  url :: "string option"

text \<open>What pydantic keeps per declared field in \<^verbatim>\<open>Item.__fields__\<close>: the field's name
  and its annotation. It belongs to the class, not to an instance.\<close>

datatype annotation = OptionalInt | OptionalListStr | OptionalStr | OptionalDate

datatype ModelField = ModelField string annotation

text \<open>The Python objects the program stores in its dictionaries.\<close>

datatype pyval = PNone | PStr string | PList "string list" | PField ModelField

type_synonym raw = "(string \<times> string) list"
type_synonym fields = "(string \<times> pyval) list"
type_synonym page = "(string \<times> string) list"
type_synonym ldap_attrs = "(string \<times> string list) list"

text \<open>
  A raw record is what \<^verbatim>\<open>Dataentry.get\<close> returns, a \<^verbatim>\<open>Dict[str, str]\<close>. Of a page
  dictionary of the wiki only the string entries \<^verbatim>\<open>'id'\<close> and \<^verbatim>\<open>'name'\<close> are read. The
  attributes of a directory entry are lists of byte strings.
\<close>

text \<open>One constructor per \<^verbatim>\<open>print\<close> statement of the program.\<close>

datatype out_line =
    ItemHasNoType pyval
  | ItemHasNoTypeAndNoId
  | PrintItemFields fields
  | PageDoesNotExist string
  | PrintPage page
  | ChangedItems nat
  | NotAnItem string
  | CacheSize nat
  | ItemGenerated
  | PrintResult ldap_attrs

record state =
  cache :: "(int \<times> raw) list"
  last_checked_ts :: "int option"
  stdout :: "out_line list"

definition py_print :: "out_line \<Rightarrow> state \<Rightarrow> state" where
  "py_print l st = st\<lparr>stdout := stdout st @ [l]\<rparr>"

text \<open>The process at start: \<^verbatim>\<open>last_checked_ts = None\<close>, \<^verbatim>\<open>cache = {}\<close>.\<close>

definition initial_state :: state where
  "initial_state = \<lparr> cache = [], last_checked_ts = None, stdout = [] \<rparr>"

text \<open>
  The collaborators outside the repository, as one request sees them: the DokuWiki client
  (\<^verbatim>\<open>dw.pages.info\<close>, \<^verbatim>\<open>get\<close>, \<^verbatim>\<open>list\<close>, \<^verbatim>\<open>changes\<close> and \<^verbatim>\<open>Dataentry.get\<close>), the LDAP
  connection (\<^verbatim>\<open>l.search_ext_s\<close> with base, scope, filter and timeout), pydantic's parser
  for a \<^verbatim>\<open>date\<close> field given a string (\<open>None\<close>: the value is refused), and the reading
  \<^verbatim>\<open>int(datetime.now().timestamp())\<close> of the local clock. Each call may raise.
\<close>

record env =
  pages_info :: "string \<Rightarrow> error + (string \<times> string) list"
  pages_get :: "string \<Rightarrow> error + string"
  pages_list :: "string \<Rightarrow> error + page list"
  pages_changes :: "int option \<Rightarrow> error + page list"
  Dataentry_get :: "string \<Rightarrow> error + raw"
  search_ext_s :: "string \<Rightarrow> int \<Rightarrow> string \<Rightarrow> int \<Rightarrow> error + (string \<times> ldap_attrs) list"
  parse_date :: "string \<Rightarrow> date option"
  clock :: int

subsection \<open>The field mapper\<close>

definition DW_TO_I :: "(string \<times> string) list" where
  "DW_TO_I =
     [(''ID'', ''uid''),
      (''Name'', ''name''),
      (''Typ_devicetypes'', ''typ''),
      (''Standort'', ''standort''),
      (''OS'', ''os''),
      (''Zubeh'' @ [CHR 0xC3, CHR 0xB6] @ ''r'', ''zubehoer''),
      (''Seriennummern'', ''seriennummern''),
      (''Status_devicestat'', ''status''),
      (''Ausleiher'', ''ausleiher''),
      (''Von_dt'', ''von''),
      (''Bis_dt'', ''bis''),
      (''Anmerkungen'', ''anmerkungen'')]"

text \<open>\<^verbatim>\<open>{value: key for key, value in DW_TO_I.items()}\<close>\<close>

definition I_TO_DW :: "(string \<times> string) list" where
  "I_TO_DW = fold (\<lambda>(key, val). AList.update val key) DW_TO_I []"

definition Item_fields :: "(string \<times> ModelField) list" where
  "Item_fields =
     [(''uid'', ModelField ''uid'' OptionalInt),
      (''typ'', ModelField ''typ'' OptionalListStr),
      (''name'', ModelField ''name'' OptionalStr),
      (''standort'', ModelField ''standort'' OptionalStr),
      (''os'', ModelField ''os'' OptionalStr),
      (''zubehoer'', ModelField ''zubehoer'' OptionalStr),
      (''seriennummern'', ModelField ''seriennummern'' OptionalStr),
      (''status'', ModelField ''status'' OptionalStr),
      (''ausleiher'', ModelField ''ausleiher'' OptionalStr),
      (''von'', ModelField ''von'' OptionalDate),
      (''bis'', ModelField ''bis'' OptionalDate),
      (''anmerkungen'', ModelField ''anmerkungen'' OptionalStr),
      (''url'', ModelField ''url'' OptionalStr)]"

text \<open>
  pydantic's validation of one keyword of \<^verbatim>\<open>Item(**item_fields)\<close>. The outer \<open>None\<close> is
  a refused value; \<open>Some None\<close> is the field left without a value (the keyword is missing
  or is \<^verbatim>\<open>None\<close>). A string is coerced to an integer by \<^verbatim>\<open>int\<close>.
\<close>

definition int_validator :: "pyval option \<Rightarrow> int option option" where
  "int_validator v =
     (case v of
        None \<Rightarrow> Some None
      | Some PNone \<Rightarrow> Some None
      | Some (PStr s) \<Rightarrow> map_option Some (py_int s)
      | Some _ \<Rightarrow> None)"

definition str_validator :: "pyval option \<Rightarrow> string option option" where
  "str_validator v =
     (case v of
        None \<Rightarrow> Some None
      | Some PNone \<Rightarrow> Some None
      | Some (PStr s) \<Rightarrow> Some (Some s)
      | Some _ \<Rightarrow> None)"

definition list_str_validator :: "pyval option \<Rightarrow> string list option option" where
  "list_str_validator v =
     (case v of
        None \<Rightarrow> Some None
      | Some PNone \<Rightarrow> Some None
      | Some (PList xs) \<Rightarrow> Some (Some xs)
      | Some _ \<Rightarrow> None)"

definition date_validator :: "(string \<Rightarrow> date option) \<Rightarrow> pyval option \<Rightarrow> date option option" where
  "date_validator pd v =
     (case v of
        None \<Rightarrow> Some None
      | Some PNone \<Rightarrow> Some None
      | Some (PStr s) \<Rightarrow> map_option Some (pd s)
      | Some _ \<Rightarrow> None)"

definition validate_fields :: "(string \<Rightarrow> date option) \<Rightarrow> fields \<Rightarrow> Item option" where
  "validate_fields pd kw =
     do {
       v1 \<leftarrow> int_validator (map_of kw ''uid'');
       v2 \<leftarrow> list_str_validator (map_of kw ''typ'');
       v3 \<leftarrow> str_validator (map_of kw ''name'');
       v4 \<leftarrow> str_validator (map_of kw ''standort'');
       v5 \<leftarrow> str_validator (map_of kw ''os'');
       v6 \<leftarrow> str_validator (map_of kw ''zubehoer'');
       v7 \<leftarrow> str_validator (map_of kw ''seriennummern'');
       v8 \<leftarrow> str_validator (map_of kw ''status'');
       v9 \<leftarrow> str_validator (map_of kw ''ausleiher'');
       v10 \<leftarrow> date_validator pd (map_of kw ''von'');
       v11 \<leftarrow> date_validator pd (map_of kw ''bis'');
       v12 \<leftarrow> str_validator (map_of kw ''anmerkungen'');
       v13 \<leftarrow> str_validator (map_of kw ''url'');
       Some \<lparr> uid = v1, typ' = v2, name = v3, standort = v4, os = v5, zubehoer = v6,
              seriennummern = v7, status = v8, ausleiher = v9, von = v10, bis = v11,
              anmerkungen = v12, url = v13 \<rparr>
     }"

text \<open>\<^verbatim>\<open>Item(**item_fields)\<close>: any refused field raises one \<^verbatim>\<open>ValidationError\<close>.\<close>

definition Item_init :: "(string \<Rightarrow> date option) \<Rightarrow> fields \<Rightarrow> error + Item" where
  "Item_init pd kw =
     (case validate_fields pd kw of
        None \<Rightarrow> Inl ValidationError
      | Some item \<Rightarrow> Inr item)"

text \<open>The body of the loop over \<^verbatim>\<open>dataentry.keys()\<close>; a \<^verbatim>\<open>KeyError\<close> of either lookup is
  caught and the key passed over.\<close>

definition dw_to_item_step :: "raw \<Rightarrow> string \<Rightarrow> fields \<Rightarrow> fields" where
  "dw_to_item_step dataentry k item_fields =
     (case map_of DW_TO_I k of
        None \<Rightarrow> item_fields
      | Some target_field \<Rightarrow>
          (case map_of dataentry k of
             None \<Rightarrow> item_fields
           | Some v \<Rightarrow>
               if v \<noteq> [] then AList.update target_field (PStr v) item_fields
               else AList.update target_field PNone item_fields))"

definition collect_item_fields :: "raw \<Rightarrow> fields" where
  "collect_item_fields dataentry = fold (dw_to_item_step dataentry) (map fst dataentry) []"

text \<open>The special cases after the loop: a string \<^verbatim>\<open>typ\<close> becomes a one-element list; a
  record without \<^verbatim>\<open>typ\<close> is reported on standard output.\<close>

definition special_cases :: "fields \<Rightarrow> state \<Rightarrow> fields \<times> state" where
  "special_cases item_fields st =
     (case map_of item_fields ''typ'' of
        Some v \<Rightarrow>
          (case v of
             PStr s \<Rightarrow> (AList.update ''typ'' (PList [s]) item_fields, st)
           | _ \<Rightarrow> (item_fields, st))
      | None \<Rightarrow>
          (case map_of item_fields ''uid'' of
             Some u \<Rightarrow> (item_fields, py_print (ItemHasNoType u) st)
           | None \<Rightarrow>
               (item_fields, py_print (PrintItemFields item_fields) (py_print ItemHasNoTypeAndNoId st))))"

definition dw_to_item :: "env \<Rightarrow> raw \<Rightarrow> state \<Rightarrow> (error + Item) \<times> state" where
  "dw_to_item w dataentry st =
     (case special_cases (collect_item_fields dataentry) st of
        (item_fields, st') \<Rightarrow> (Item_init (parse_date w) item_fields, st'))"

text \<open>The body of the loop over \<^verbatim>\<open>item.__fields__.keys()\<close>: the value stored is
  \<^verbatim>\<open>item.__fields__[k]\<close>, the field's description.\<close>

definition item_to_dw_step :: "string \<Rightarrow> fields \<Rightarrow> fields" where
  "item_to_dw_step k dataentry =
     (case map_of I_TO_DW k of
        None \<Rightarrow> dataentry
      | Some target_field \<Rightarrow>
          (case map_of Item_fields k of
             None \<Rightarrow> dataentry
           | Some f \<Rightarrow> AList.update target_field (PField f) dataentry))"

definition item_to_dw :: "Item \<Rightarrow> fields" where
  "item_to_dw item = fold item_to_dw_step (map fst Item_fields) []"

subsection \<open>The inventory cache\<close>

definition get_dataentry :: "Settings \<Rightarrow> env \<Rightarrow> int \<Rightarrow> state \<Rightarrow> (error + raw) \<times> state" where
  "get_dataentry cfg w uid_arg st =
     (let page = wiki_path cfg @ format_03d uid_arg in
      case pages_info w page of
        Inl e \<Rightarrow> (Inl e, st)
      | Inr info \<Rightarrow>
          if info = [] then (Inr [], py_print (PageDoesNotExist page) st)
          else (case pages_get w page of
                  Inl e \<Rightarrow> (Inl e, st)
                | Inr content \<Rightarrow>
                    (case Dataentry_get w content of
                       Inl e \<Rightarrow> (Inl e, st)
                     | Inr data \<Rightarrow> (Inr data, st))))"

text \<open>\<^verbatim>\<open>if not since_ts\<close>: \<^verbatim>\<open>None\<close> and \<^verbatim>\<open>0\<close> are both false.\<close>

definition truthy :: "int option \<Rightarrow> bool" where
  "truthy ts = (case ts of None \<Rightarrow> False | Some n \<Rightarrow> n \<noteq> 0)"

text \<open>The loop over \<^verbatim>\<open>changed_pages\<close>: the pages under the configured path, each with its
  \<^verbatim>\<open>'name'\<close> copied to \<^verbatim>\<open>'id'\<close>.\<close>

fun select_changed :: "Settings \<Rightarrow> page list \<Rightarrow> page list \<Rightarrow> state \<Rightarrow> (error + page list) \<times> state" where
  "select_changed cfg [] changed_item_pages st = (Inr changed_item_pages, st)"
| "select_changed cfg (page # pages) changed_item_pages st =
     (let st1 = py_print (PrintPage page) st in
      case map_of page ''name'' of
        None \<Rightarrow> (Inl KeyError, st1)
      | Some n \<Rightarrow>
          if prefix (wiki_path cfg) n
          then select_changed cfg pages (changed_item_pages @ [AList.update ''id'' n page]) st1
          else select_changed cfg pages changed_item_pages st1)"

text \<open>The loop over \<^verbatim>\<open>changed_item_pages\<close>: the last segment of the page id is parsed; a
  \<^verbatim>\<open>ValueError\<close> is caught and the page passed over; any other exception leaves the loop.\<close>

fun fetch_pages :: "Settings \<Rightarrow> env \<Rightarrow> page list \<Rightarrow> state \<Rightarrow> (error + unit) \<times> state" where
  "fetch_pages cfg w [] st = (Inr (), st)"
| "fetch_pages cfg w (page # pages) st =
     (case map_of page ''id'' of
        None \<Rightarrow> (Inl KeyError, st)
      | Some page_id \<Rightarrow>
          (let seg = last (py_split (CHR '':'') page_id) in
           case py_int seg of
             None \<Rightarrow> fetch_pages cfg w pages (py_print (NotAnItem seg) st)
           | Some n \<Rightarrow>
               (case get_dataentry cfg w n st of
                  (Inl e, st') \<Rightarrow> (Inl e, st')
                | (Inr data, st') \<Rightarrow>
                    fetch_pages cfg w pages (st'\<lparr>cache := AList.update n data (cache st')\<rparr>))))"

text \<open>The end of \<^verbatim>\<open>update_cache\<close>: the cache size is printed and the clock read.\<close>

definition finish_update :: "env \<Rightarrow> (error + unit) \<times> state \<Rightarrow> (error + int) \<times> state" where
  "finish_update w r =
     (case r of
        (Inl e, st) \<Rightarrow> (Inl e, st)
      | (Inr u, st) \<Rightarrow> (Inr (clock w), py_print (CacheSize (length (cache st))) st))"

text \<open>The first half of \<^verbatim>\<open>update_cache\<close>, up to the loop: the pages the refresh runs
  over. Without a watermark the cache is emptied and every page under the configured path
  is listed; otherwise the changes since \<^verbatim>\<open>last_checked_ts\<close> are asked for.\<close>

definition changed_item_pages :: "Settings \<Rightarrow> env \<Rightarrow> int option \<Rightarrow> state \<Rightarrow> (error + page list) \<times> state" where
  "changed_item_pages cfg w since_ts st =
     (if \<not> truthy since_ts then
        (let st0 = st\<lparr>cache := []\<rparr> in
         case pages_list w (wiki_path cfg) of
           Inl e \<Rightarrow> (Inl e, st0)
         | Inr pages \<Rightarrow> (Inr pages, st0))
      else
        (case pages_changes w (last_checked_ts st) of
           Inl e \<Rightarrow> (Inl e, st)
         | Inr changed_pages \<Rightarrow>
             (case select_changed cfg changed_pages [] st of
                (Inl e, st1) \<Rightarrow> (Inl e, st1)
              | (Inr pages, st1) \<Rightarrow> (Inr pages, py_print (ChangedItems (length pages)) st1))))"

definition update_cache :: "Settings \<Rightarrow> env \<Rightarrow> int option \<Rightarrow> state \<Rightarrow> (error + int) \<times> state" where
  "update_cache cfg w since_ts st =
     (case changed_item_pages cfg w since_ts st of
        (Inl e, st1) \<Rightarrow> (Inl e, st1)
      | (Inr pages, st1) \<Rightarrow> finish_update w (fetch_pages cfg w pages st1))"

subsection \<open>The endpoints\<close>

record cache_report =
  last_checked :: int
  cache_size :: nat

definition report :: "(error + int) \<times> state \<Rightarrow> (error + cache_report) \<times> state" where
  "report r =
     (case r of
        (Inl e, st) \<Rightarrow> (Inl e, st)
      | (Inr ts, st) \<Rightarrow>
          (Inr \<lparr> last_checked = ts, cache_size = length (cache st) \<rparr>,
           st\<lparr>last_checked_ts := Some ts\<rparr>))"

definition update_cache_now :: "Settings \<Rightarrow> env \<Rightarrow> state \<Rightarrow> (error + cache_report) \<times> state" where
  "update_cache_now cfg w st = report (update_cache cfg w (last_checked_ts st) st)"

definition purge_cache :: "Settings \<Rightarrow> env \<Rightarrow> state \<Rightarrow> (error + cache_report) \<times> state" where
  "purge_cache cfg w st = report (update_cache cfg w None st)"

text \<open>\<^verbatim>\<open>[_dw_to_item(cache[i]) for i in cache.keys()]\<close>\<close>

fun items_of_keys :: "env \<Rightarrow> int list \<Rightarrow> state \<Rightarrow> (error + Item list) \<times> state" where
  "items_of_keys w [] st = (Inr [], st)"
| "items_of_keys w (i # ks) st =
     (case map_of (cache st) i of
        None \<Rightarrow> (Inl KeyError, st)
      | Some dataentry \<Rightarrow>
          (case dw_to_item w dataentry st of
             (Inl e, st1) \<Rightarrow> (Inl e, st1)
           | (Inr item, st1) \<Rightarrow>
               (case items_of_keys w ks st1 of
                  (Inl e, st2) \<Rightarrow> (Inl e, st2)
                | (Inr items, st2) \<Rightarrow> (Inr (item # items), st2))))"

text \<open>The filters \<^verbatim>\<open>item_type\<close>, \<^verbatim>\<open>location\<close> and \<^verbatim>\<open>status\<close> are not read. The branch of
  the empty cache starts with \<^verbatim>\<open>assert False\<close>.\<close>

definition list_items :: "Settings \<Rightarrow> env \<Rightarrow> state \<Rightarrow> (error + Item list) \<times> state" where
  "list_items cfg w st =
     (case update_cache cfg w (last_checked_ts st) st of
        (Inl e, st1) \<Rightarrow> (Inl e, st1)
      | (Inr ts, st1) \<Rightarrow>
          (let st2 = st1\<lparr>last_checked_ts := Some ts\<rparr> in
           if cache st2 \<noteq> [] then items_of_keys w (map fst (cache st2)) st2
           else (Inl AssertionError, st2)))"

text \<open>The handler of \<^verbatim>\<open>GET /items/{item_id}\<close> (the later \<^verbatim>\<open>read_item\<close> of the module serves
  \<^verbatim>\<open>/search\<close>).\<close>

definition read_item :: "Settings \<Rightarrow> env \<Rightarrow> int \<Rightarrow> bool \<Rightarrow> state \<Rightarrow> (error + Item) \<times> state" where
  "read_item cfg w item_id purge st =
     (case (if purge \<or> item_id \<notin> set (map fst (cache st))
            then (case get_dataentry cfg w item_id st of
                    (Inl e, st1) \<Rightarrow> (Inl e, st1)
                  | (Inr dataentry, st1) \<Rightarrow>
                      (Inr dataentry, st1\<lparr>cache := AList.update item_id dataentry (cache st1)\<rparr>))
            else (case map_of (cache st) item_id of
                    None \<Rightarrow> (Inl KeyError, st)
                  | Some dataentry \<Rightarrow> (Inr dataentry, st))) of
        (Inl e, st2) \<Rightarrow> (Inl e, st2)
      | (Inr dataentry, st2) \<Rightarrow>
          (case dw_to_item w dataentry st2 of
             (Inl e, st3) \<Rightarrow> (Inl e, st3)
           | (Inr item, st3) \<Rightarrow> (Inr item, py_print ItemGenerated st3)))"

subsection \<open>The directory lookup\<close>

definition decode_utf8 :: "string \<Rightarrow> error + string" where
  "decode_utf8 b = (if utf8_valid b then Inr b else Inl UnicodeDecodeError)"

definition normalize_group :: "string \<Rightarrow> string" where
  "normalize_group g =
     py_replace '',c='' ''.'' (py_replace '',o='' ''.'' (py_replace '',ou='' ''.'' (py_replace ''cn='' [] g)))"

text \<open>The loop over \<^verbatim>\<open>result['groupMembership']\<close>.\<close>

fun collect_groups :: "string list \<Rightarrow> string list \<Rightarrow> error + string list" where
  "collect_groups [] groups = Inr groups"
| "collect_groups (g # gs) groups =
     (case decode_utf8 g of
        Inl e \<Rightarrow> Inl e
      | Inr t \<Rightarrow> collect_groups gs (groups @ [normalize_group t]))"

text \<open>\<^verbatim>\<open>result[key][0].decode('utf-8')\<close>\<close>

definition first_decoded :: "ldap_attrs \<Rightarrow> string \<Rightarrow> error + string" where
  "first_decoded result key =
     (case map_of result key of
        None \<Rightarrow> Inl KeyError
      | Some [] \<Rightarrow> Inl IndexError
      | Some (b # bs) \<Rightarrow> decode_utf8 b)"

record user_data =
  user_id :: string
  full_name :: string
  e_mail :: string
  groups :: "string list"
  allowed :: "string list"

text \<open>The handler returns \<^verbatim>\<open>None\<close> (here \<open>Inr None\<close>) when the search times out.\<close>

definition read_user_data :: "Settings \<Rightarrow> env \<Rightarrow> string \<Rightarrow> state \<Rightarrow> (error + user_data option) \<times> state" where
  "read_user_data cfg w uid_arg st =
     (let query = ''(&(cn='' @ uid_arg @ '')(objectClass=urrzUser))'' in
      case search_ext_s w (ldap_base_dn cfg) (ldap_scope cfg) query 5 of
        Inl e \<Rightarrow> if e = LDAP_TIMEOUT then (Inr None, st) else (Inl e, st)
      | Inr results \<Rightarrow>
          (case results of
             [entry] \<Rightarrow>
               (let result = snd entry; st1 = py_print (PrintResult result) st in
                case map_of result ''groupMembership'' of
                  None \<Rightarrow> (Inl KeyError, st1)
                | Some gs \<Rightarrow>
                    (case collect_groups gs [] of
                       Inl e \<Rightarrow> (Inl e, st1)
                     | Inr grps \<Rightarrow>
                         (let allowed0 = [''read_item'', ''list_items''];
                              allowed1 =
                                (if set (groups_with_edit_rights cfg) \<inter> set grps \<noteq> {}
                                 then allowed0 @ [''update_item'']
                                 else allowed0)
                          in case first_decoded result ''fullName'' of
                               Inl e \<Rightarrow> (Inl e, st1)
                             | Inr n \<Rightarrow>
                                 (case first_decoded result ''mail'' of
                                    Inl e \<Rightarrow> (Inl e, st1)
                                  | Inr m \<Rightarrow>
                                      (Inr (Some \<lparr> user_id = uid_arg, full_name = n, e_mail = m,
                                                   groups = grps, allowed = allowed1 \<rparr>), st1)))))
           | _ \<Rightarrow> (Inl AssertionError, st)))"

subsection \<open>Notions used in the statements\<close>

text \<open>The uid the refresh loop reads off a page identifier: \<^verbatim>\<open>int(id.split(":")[-1])\<close>.\<close>

definition uid_of_page_id :: "string \<Rightarrow> int option" where
  "uid_of_page_id page_id = py_int (last (py_split (CHR '':'') page_id))"

text \<open>\<^verbatim>\<open>Item()\<close>: every field without a value.\<close>

definition empty_Item :: Item where
  "empty_Item =
     \<lparr> uid = None, typ' = None, name = None, standort = None, os = None, zubehoer = None,
       seriennummern = None, status = None, ausleiher = None, von = None, bis = None,
       anmerkungen = None, url = None \<rparr>"

text \<open>What one round of the refresh loop does with a page, the state apart: it raises
  (\<open>Inl\<close>), passes the page over (\<open>Inr None\<close>), or stores a record under a uid.\<close>

definition page_outcome :: "Settings \<Rightarrow> env \<Rightarrow> page \<Rightarrow> error + (int \<times> raw) option" where
  "page_outcome cfg w p =
     (case map_of p ''id'' of
        None \<Rightarrow> Inl KeyError
      | Some page_id \<Rightarrow>
          (case uid_of_page_id page_id of
             None \<Rightarrow> Inr None
           | Some n \<Rightarrow>
               (case fst (get_dataentry cfg w n initial_state) of
                  Inl e \<Rightarrow> Inl e
                | Inr data \<Rightarrow> Inr (Some (n, data)))))"

definition raises :: "error + 'a \<Rightarrow> bool" where
  "raises r = (case r of Inl e \<Rightarrow> True | Inr v \<Rightarrow> False)"

subsection \<open>A small wiki and directory\<close>

definition example_settings :: Settings where
  "example_settings = default_settings ''rental'' ''secret''"

definition raw_042 :: raw where
  "raw_042 =
     [(''ID'', ''42''),
      (''Name'', ''ThinkPad X1''),
      (''Typ_devicetypes'', ''Laptop''),
      (''Standort'', ''Safe''),
      (''OS'', ''Linux''),
      (''Zubeh'' @ [CHR 0xC3, CHR 0xB6] @ ''r'', ''Netzteil''),
      (''Seriennummern'', ''SN-0042''),
      (''Status_devicestat'', ''entliehen''),
      (''Ausleiher'', ''abc12345''),
      (''Von_dt'', ''2021-03-01''),
      (''Bis_dt'', ''2021-04-01''),
      (''Anmerkungen'', ''mit Tasche'')]"

definition item_042 :: Item where
  "item_042 =
     \<lparr> uid = Some 42, typ' = Some [''Laptop''], name = Some ''ThinkPad X1'',
       standort = Some ''Safe'', os = Some ''Linux'', zubehoer = Some ''Netzteil'',
       seriennummern = Some ''SN-0042'', status = Some ''entliehen'',
       ausleiher = Some ''abc12345'', von = Some (Date 2021 3 1), bis = Some (Date 2021 4 1),
       anmerkungen = Some ''mit Tasche'', url = None \<rparr>"

text \<open>The page of the beamer carries an \<^verbatim>\<open>ID\<close> that is not its page number.\<close>

definition raw_007 :: raw where
  "raw_007 = [(''ID'', ''8''), (''Name'', ''Beamer''), (''Typ_devicetypes'', ''Beamer'')]"

definition example_parse_date :: "string \<Rightarrow> date option" where
  "example_parse_date s =
     (if s = ''2021-03-01'' then Some (Date 2021 3 1)
      else if s = ''2021-04-01'' then Some (Date 2021 4 1)
      else None)"

definition example_entry :: "string \<times> ldap_attrs" where
  "example_entry =
     (''cn=abc12345,o=uni-regensburg,c=de'',
      [(''groupMembership'',
          [''cn=mi-staff,ou=mi,ou=sprachlit,o=uni-regensburg,c=de'',
           ''cn=stud,ou=ur,o=uni-regensburg,c=de'']),
       (''fullName'', [''Ada Lovelace'']),
       (''mail'', [''ada.lovelace@ur.de''])])"

text \<open>Pages 042 and 007 exist; 043 and \<^verbatim>\<open>readme\<close> are listed, and 043 does not exist.\<close>

definition example_env :: env where
  "example_env =
     \<lparr> pages_info = (\<lambda>p. if p = ''lab:ausstattung:042'' \<or> p = ''lab:ausstattung:007''
                          then Inr [(''name'', p)] else Inr []),
       pages_get = (\<lambda>p. Inr p),
       pages_list = (\<lambda>ns. Inr [[(''id'', ''lab:ausstattung:042'')],
                               [(''id'', ''lab:ausstattung:readme'')],
                               [(''id'', ''lab:ausstattung:043'')]]),
       pages_changes = (\<lambda>ts. Inr [[(''name'', ''lab:ausstattung:007'')],
                                  [(''name'', ''wiki:syntax'')]]),
       Dataentry_get = (\<lambda>c. if c = ''lab:ausstattung:042'' then Inr raw_042
                             else if c = ''lab:ausstattung:007'' then Inr raw_007
                             else Inl DokuWikiError),
       search_ext_s = (\<lambda>base scope query tmo.
                         if query = ''(&(cn=abc12345)(objectClass=urrzUser))''
                         then Inr [example_entry] else Inr []),
       parse_date = example_parse_date,
       clock = 1700000000 \<rparr>"

text \<open>The same wiki with a transport failure on the existence check of page 043.\<close>

definition failing_env :: env where
  "failing_env =
     example_env\<lparr>pages_info := (\<lambda>p. if p = ''lab:ausstattung:043'' then Inl DokuWikiError
                                       else pages_info example_env p)\<rparr>"

text \<open>A wiki whose namespace lists no page.\<close>

definition empty_env :: env where
  "empty_env = example_env\<lparr>pages_list := (\<lambda>ns. Inr [])\<rparr>"

text \<open>A backend of which every call fails.\<close>

definition unreachable_env :: env where
  "unreachable_env =
     \<lparr> pages_info = (\<lambda>p. Inl DokuWikiError),
       pages_get = (\<lambda>p. Inl DokuWikiError),
       pages_list = (\<lambda>ns. Inl DokuWikiError),
       pages_changes = (\<lambda>ts. Inl DokuWikiError),
       Dataentry_get = (\<lambda>c. Inl DokuWikiError),
       search_ext_s = (\<lambda>base scope query tmo. Inl LDAP_TIMEOUT),
       parse_date = (\<lambda>s. None),
       clock = 1700000600 \<rparr>"

text \<open>What the directory lookup returns for the user of the example directory.\<close>

definition example_user :: user_data where
  "example_user =
     \<lparr> user_id = ''abc12345'', full_name = ''Ada Lovelace'', e_mail = ''ada.lovelace@ur.de'',
       groups = [''mi-staff.mi.sprachlit.uni-regensburg.de'', ''stud.ur.uni-regensburg.de''],
       allowed = [''read_item'', ''list_items'', ''update_item''] \<rparr>"

text \<open>The item of the beamer's page.\<close>

definition item_007 :: Item where
  "item_007 =
     \<lparr> uid = Some 8, typ' = Some [''Beamer''], name = Some ''Beamer'', standort = None,
       os = None, zubehoer = None, seriennummern = None, status = None, ausleiher = None,
       von = None, bis = None, anmerkungen = None, url = None \<rparr>"

section \<open>Properties\<close>

subsection \<open>Auxiliary facts\<close>

lemma py_split_nonempty: "py_split sep s \<noteq> []"
  by (induction s) (auto split: list.splits)

lemma update_cache_unset:
  "\<not> truthy since_ts \<Longrightarrow>
   update_cache cfg w since_ts st =
     (case pages_list w (wiki_path cfg) of
        Inl e \<Rightarrow> (Inl e, st\<lparr>cache := []\<rparr>)
      | Inr ps \<Rightarrow> finish_update w (fetch_pages cfg w ps (st\<lparr>cache := []\<rparr>)))"
  by (simp add: update_cache_def changed_item_pages_def Let_def split: sum.splits)

lemma finish_update_Inr: "finish_update w r = (Inr ts, st') \<Longrightarrow> ts = clock w"
  by (auto simp: finish_update_def split: prod.splits sum.splits)

lemma update_cache_Inr: "update_cache cfg w since_ts st = (Inr ts, st') \<Longrightarrow> ts = clock w"
  by (auto simp: update_cache_def split: sum.splits prod.splits dest: finish_update_Inr)

lemma report_Inr:
  "report r = (Inr rep, st') \<Longrightarrow>
   \<exists>ts st1. r = (Inr ts, st1) \<and> last_checked rep = ts \<and>
     cache_size rep = length (cache st1) \<and> st' = st1\<lparr>last_checked_ts := Some ts\<rparr>"
  by (auto simp: report_def split: prod.splits sum.splits)

lemma get_dataentry_frame:
  "get_dataentry cfg w n st = (r, st') \<Longrightarrow>
   cache st' = cache st \<and> last_checked_ts st' = last_checked_ts st"
  by (auto simp: get_dataentry_def Let_def py_print_def split: sum.splits if_splits)

lemma get_dataentry_result_state:
  "fst (get_dataentry cfg w n st) = fst (get_dataentry cfg w n st0)"
  by (auto simp: get_dataentry_def Let_def split: sum.splits if_splits)

lemma special_cases_frame:
  "special_cases fs st = (fs', st') \<Longrightarrow>
   cache st' = cache st \<and> last_checked_ts st' = last_checked_ts st"
  by (auto simp: special_cases_def py_print_def split: option.splits pyval.splits)

lemma dw_to_item_frame:
  "dw_to_item w d st = (r, st') \<Longrightarrow>
   cache st' = cache st \<and> last_checked_ts st' = last_checked_ts st"
  by (auto simp: dw_to_item_def split: prod.splits dest: special_cases_frame)

lemma items_of_keys_frame:
  "items_of_keys w ks st = (r, st') \<Longrightarrow>
   cache st' = cache st \<and> last_checked_ts st' = last_checked_ts st"
proof (induction ks arbitrary: st r st')
  case Nil
  then show ?case by simp
next
  case (Cons i ks)
  show ?case
  proof (cases "map_of (cache st) i")
    case None
    with Cons.prems show ?thesis by simp
  next
    case (Some d)
    obtain r1 st1 where d1: "dw_to_item w d st = (r1, st1)"
      by (cases "dw_to_item w d st")
    from dw_to_item_frame[OF d1]
    have f1: "cache st1 = cache st \<and> last_checked_ts st1 = last_checked_ts st" .
    show ?thesis
    proof (cases r1)
      case (Inl e)
      with Cons.prems Some d1 f1 show ?thesis by auto
    next
      case (Inr item)
      obtain r2 st2 where d2: "items_of_keys w ks st1 = (r2, st2)"
        by (cases "items_of_keys w ks st1")
      from Cons.IH[OF d2] f1
      have "cache st2 = cache st \<and> last_checked_ts st2 = last_checked_ts st" by simp
      with Cons.prems Some d1 Inr d2 show ?thesis by (auto split: sum.splits)
    qed
  qed
qed

lemma update_absent: "k \<notin> fst ` set al \<Longrightarrow> AList.update k v al = al @ [(k, v)]"
  by (induction al) auto

lemma collect_item_fields_empty: "collect_item_fields [] = []"
  by (simp add: collect_item_fields_def)

lemma Item_init_empty: "Item_init pd [] = Inr empty_Item"
  by (simp add: Item_init_def validate_fields_def empty_Item_def int_validator_def
      str_validator_def list_str_validator_def date_validator_def)

lemma dw_to_item_empty:
  "dw_to_item w [] st =
     (Inr empty_Item, py_print (PrintItemFields []) (py_print ItemHasNoTypeAndNoId st))"
  by (simp add: dw_to_item_def collect_item_fields_empty special_cases_def Item_init_empty)

lemma get_dataentry_missing:
  "pages_info w (wiki_path cfg @ format_03d n) = Inr [] \<Longrightarrow>
   get_dataentry cfg w n st = (Inr [], py_print (PageDoesNotExist (wiki_path cfg @ format_03d n)) st)"
  by (simp add: get_dataentry_def Let_def)

lemma read_item_cached_empty:
  assumes "map_of (cache s) item_id = Some []"
  shows "read_item cfg w' item_id False s =
     (Inr empty_Item,
      py_print ItemGenerated (py_print (PrintItemFields []) (py_print ItemHasNoTypeAndNoId s)))"
proof -
  from assms have "(item_id, []) \<in> set (cache s)" by (rule map_of_SomeD)
  then have "item_id \<in> fst ` set (cache s)" by force
  with assms show ?thesis by (simp add: read_item_def dw_to_item_empty)
qed

subsection \<open>The direct fetch of a page that does not exist\<close>

text \<open>
  Claim C2, as amended. The claim asks for an explicit not-found result; the program has
  none. For every uid whose wiki page does not exist (\<^verbatim>\<open>dw.pages.info\<close> returns the
  empty dictionary), a direct fetch by \<open>read_item\<close>, with \<^verbatim>\<open>purge_cache\<close> set or the uid not
  in the cache, returns normally, and what it returns is the \<open>Item\<close> of which every field
  is without a value.
\<close>

theorem read_item_missing_page_default:
  assumes "pages_info w (wiki_path cfg @ format_03d item_id) = Inr []"
    and "purge \<or> item_id \<notin> fst ` set (cache st)"
  shows "fst (read_item cfg w item_id purge st) = Inr empty_Item"
  using assms
  by (auto simp: read_item_def get_dataentry_missing dw_to_item_empty)

theorem read_item_missing_page_default_witness:
  "pages_info example_env (wiki_path example_settings @ format_03d 999) = Inr [] \<and>
   fst (read_item example_settings example_env 999 True initial_state) = Inr empty_Item"
proof -
  have b: "pages_info example_env (wiki_path example_settings @ format_03d 999) = Inr []"
    by code_simp
  from read_item_missing_page_default[OF b, of True initial_state] b show ?thesis by simp
qed

text \<open>
  Claim C2 fails as stated: in the example wiki page 999 does not exist, and the direct
  fetch returns an \<open>Item\<close>, every field of it \<open>None\<close>, not an error.
\<close>

theorem read_item_not_found_counterexample:
  "fst (read_item example_settings example_env 999 False initial_state) =
     Inr \<lparr> uid = None, typ' = None, name = None, standort = None, os = None, zubehoer = None,
       seriennummern = None, status = None, ausleiher = None, von = None, bis = None,
       anmerkungen = None, url = None \<rparr>"
  by code_simp

text \<open>
  Claim C10. If the uid is not in the cache and its wiki page does not exist, \<open>read_item\<close>
  appends the empty raw record to the cache under that uid and returns the \<open>Item\<close> with
  every field absent. From then on, in any state whose cache holds the empty record under
  the uid, and so at every later call without \<^verbatim>\<open>purge_cache\<close>, \<open>read_item\<close> returns the same
  \<open>Item\<close> whatever the backend \<open>w'\<close> is (it is not consulted), and leaves cache and watermark
  as they are.
\<close>

theorem read_item_missing_page_cached:
  assumes "item_id \<notin> fst ` set (cache st)"
    and "pages_info w (wiki_path cfg @ format_03d item_id) = Inr []"
  shows "\<exists>st1. read_item cfg w item_id False st = (Inr empty_Item, st1) \<and>
           cache st1 = cache st @ [(item_id, [])] \<and>
           map_of (cache st1) item_id = Some [] \<and>
           (\<forall>w' s. map_of (cache s) item_id = Some [] \<longrightarrow>
              (\<exists>s'. read_item cfg w' item_id False s = (Inr empty_Item, s') \<and>
                    cache s' = cache s \<and> last_checked_ts s' = last_checked_ts s))"
proof -
  let ?p = "wiki_path cfg @ format_03d item_id"
  let ?st1 = "py_print ItemGenerated (py_print (PrintItemFields []) (py_print ItemHasNoTypeAndNoId
      ((py_print (PageDoesNotExist ?p) st)\<lparr>cache := cache st @ [(item_id, [])]\<rparr>)))"
  have r: "read_item cfg w item_id False st = (Inr empty_Item, ?st1)"
    using assms
    by (simp add: read_item_def get_dataentry_missing dw_to_item_empty update_absent py_print_def)
  have c: "cache ?st1 = cache st @ [(item_id, [])]" by (simp add: py_print_def)
  have "map_of (cache st) item_id = None"
    using assms(1) by (simp add: map_of_eq_None_iff)
  then have m: "map_of (cache ?st1) item_id = Some []"
    by (simp add: c map_add_def)
  have s: "\<exists>s'. read_item cfg w' item_id False s = (Inr empty_Item, s') \<and>
                    cache s' = cache s \<and> last_checked_ts s' = last_checked_ts s"
    if "map_of (cache s) item_id = Some []" for w' s
    using read_item_cached_empty[OF that, of cfg w'] by (simp add: py_print_def)
  from r c m s show ?thesis by blast
qed

theorem read_item_missing_page_cached_witness:
  "999 \<notin> fst ` set (cache initial_state) \<and>
   pages_info example_env (wiki_path example_settings @ format_03d 999) = Inr [] \<and>
   fst (read_item example_settings example_env 999 False initial_state) = Inr empty_Item \<and>
   cache (snd (read_item example_settings example_env 999 False initial_state)) = [(999, [])] \<and>
   fst (read_item example_settings unreachable_env 999 False
          (snd (read_item example_settings example_env 999 False initial_state))) = Inr empty_Item"
proof -
  have a: "999 \<notin> fst ` set (cache initial_state)" by (simp add: initial_state_def)
  have b: "pages_info example_env (wiki_path example_settings @ format_03d 999) = Inr []"
    by code_simp
  have c: "cache initial_state = []" by (simp add: initial_state_def)
  from read_item_missing_page_cached[OF a b] obtain st1 where
    r: "read_item example_settings example_env 999 False initial_state = (Inr empty_Item, st1)"
    and k: "cache st1 = cache initial_state @ [(999, [])]"
    and m: "map_of (cache st1) 999 = Some []"
    and n: "\<forall>w' s. map_of (cache s) 999 = Some [] \<longrightarrow>
              (\<exists>s'. read_item example_settings w' 999 False s = (Inr empty_Item, s') \<and>
                    cache s' = cache s \<and> last_checked_ts s' = last_checked_ts s)"
    by blast
  from n m obtain s' where
    "read_item example_settings unreachable_env 999 False st1 = (Inr empty_Item, s')" by blast
  with a b r k c show ?thesis by simp
qed

subsection \<open>Refresh with an unset watermark\<close>

text \<open>
  Claim C8. With the watermark unset, the refresh endpoint \<open>update_cache_now\<close> and the
  rebuild endpoint \<open>purge_cache\<close> return the same result and state for the same backend:
  the cache is emptied, the loop runs over the full listing of the configured path
  starting from the empty cache, and on success the watermark returned and stored is the
  reading of the clock.
\<close>

theorem refresh_unset_is_rebuild:
  assumes "last_checked_ts st = None"
  shows "update_cache_now cfg w st = purge_cache cfg w st \<and>
     update_cache cfg w (last_checked_ts st) st =
       (case pages_list w (wiki_path cfg) of
          Inl e \<Rightarrow> (Inl e, st\<lparr>cache := []\<rparr>)
        | Inr ps \<Rightarrow> finish_update w (fetch_pages cfg w ps (st\<lparr>cache := []\<rparr>))) \<and>
     (\<forall>rep st'. update_cache_now cfg w st = (Inr rep, st') \<longrightarrow>
        last_checked rep = clock w \<and> last_checked_ts st' = Some (clock w))"
proof -
  have a: "update_cache_now cfg w st = purge_cache cfg w st"
    using assms by (simp add: update_cache_now_def purge_cache_def)
  have b: "update_cache cfg w (last_checked_ts st) st =
       (case pages_list w (wiki_path cfg) of
          Inl e \<Rightarrow> (Inl e, st\<lparr>cache := []\<rparr>)
        | Inr ps \<Rightarrow> finish_update w (fetch_pages cfg w ps (st\<lparr>cache := []\<rparr>)))"
    using assms by (simp add: update_cache_unset truthy_def)
  have c: "last_checked rep = clock w \<and> last_checked_ts st' = Some (clock w)"
    if h: "update_cache_now cfg w st = (Inr rep, st')" for rep st'
  proof -
    from h obtain ts st1 where r: "update_cache cfg w (last_checked_ts st) st = (Inr ts, st1)"
      and l: "last_checked rep = ts" and s: "st' = st1\<lparr>last_checked_ts := Some ts\<rparr>"
      unfolding update_cache_now_def by (blast dest: report_Inr)
    from update_cache_Inr[OF r] l s show ?thesis by simp
  qed
  from a b c show ?thesis by blast
qed

theorem refresh_unset_is_rebuild_witness:
  "last_checked_ts initial_state = None \<and>
   update_cache_now example_settings example_env initial_state =
     purge_cache example_settings example_env initial_state \<and>
   fst (purge_cache example_settings example_env initial_state) =
     Inr \<lparr>last_checked = 1700000000, cache_size = 2\<rparr>"
proof -
  have h: "last_checked_ts initial_state = None" by (simp add: initial_state_def)
  have e: "fst (purge_cache example_settings example_env initial_state) =
     Inr \<lparr>last_checked = 1700000000, cache_size = 2\<rparr>" by code_simp
  from refresh_unset_is_rebuild[OF h, of example_settings example_env] h e
  show ?thesis by blast
qed

subsection \<open>Listing with an empty cache\<close>

text \<open>
  Claim C9. When the refresh that \<open>list_items\<close> starts with succeeds and leaves the cache
  empty, \<open>list_items\<close> does not return the empty list: it fails with \<^verbatim>\<open>AssertionError\<close>
  (assertions enabled, as by default). Whenever \<open>list_items\<close> returns a list, the refreshed
  cache was not empty.
\<close>

theorem list_items_empty_cache_asserts:
  "(\<forall>ts st1. update_cache cfg w (last_checked_ts st) st = (Inr ts, st1) \<longrightarrow> cache st1 = [] \<longrightarrow>
      list_items cfg w st = (Inl AssertionError, st1\<lparr>last_checked_ts := Some ts\<rparr>)) \<and>
   (\<forall>items st'. list_items cfg w st = (Inr items, st') \<longrightarrow>
      (\<exists>ts st1. update_cache cfg w (last_checked_ts st) st = (Inr ts, st1) \<and>
         cache st1 \<noteq> [] \<and> cache st' = cache st1))"
proof (intro conjI allI impI)
  fix ts st1
  assume "update_cache cfg w (last_checked_ts st) st = (Inr ts, st1)" and "cache st1 = []"
  then show "list_items cfg w st = (Inl AssertionError, st1\<lparr>last_checked_ts := Some ts\<rparr>)"
    by (simp add: list_items_def Let_def)
next
  fix items st'
  assume "list_items cfg w st = (Inr items, st')"
  then show "\<exists>ts st1. update_cache cfg w (last_checked_ts st) st = (Inr ts, st1) \<and>
         cache st1 \<noteq> [] \<and> cache st' = cache st1"
    by (auto simp: list_items_def Let_def split: prod.splits sum.splits if_splits
        dest: items_of_keys_frame)
qed

theorem list_items_empty_cache_asserts_witness:
  "update_cache example_settings empty_env (last_checked_ts initial_state) initial_state =
     (Inr 1700000000, initial_state\<lparr>stdout := [CacheSize 0]\<rparr>) \<and>
   cache (initial_state\<lparr>stdout := [CacheSize 0]\<rparr>) = [] \<and>
   list_items example_settings empty_env initial_state =
     (Inl AssertionError, initial_state\<lparr>stdout := [CacheSize 0], last_checked_ts := Some 1700000000\<rparr>)"
proof -
  have u: "update_cache example_settings empty_env (last_checked_ts initial_state) initial_state =
     (Inr 1700000000, initial_state\<lparr>stdout := [CacheSize 0]\<rparr>)"
    by code_simp
  have c: "cache (initial_state\<lparr>stdout := [CacheSize 0]\<rparr>) = []"
    by (simp add: initial_state_def)
  from list_items_empty_cache_asserts[of example_settings empty_env initial_state] u c
  show ?thesis by auto
qed

subsection \<open>Allowed operations of a user\<close>

lemma collect_groups_Inr:
  "collect_groups gs acc = Inr grps \<Longrightarrow> grps = acc @ map normalize_group gs"
proof (induction gs arbitrary: acc)
  case Nil
  then show ?case by simp
next
  case (Cons g gs)
  from Cons.prems have "collect_groups gs (acc @ [normalize_group g]) = Inr grps"
    by (simp add: decode_utf8_def split: if_splits)
  from Cons.IH[OF this] show ?case by simp
qed

text \<open>
  Claim C6. For every successful lookup by \<open>read_user_data\<close>, the allowed operations
  contain \<^verbatim>\<open>read_item\<close> and \<^verbatim>\<open>list_items\<close>, and contain \<^verbatim>\<open>update_item\<close> if and only if
  the configured list \<open>groups_with_edit_rights\<close> and the user's normalised groups have a
  common element; the groups returned are the directory entry's \<^verbatim>\<open>groupMembership\<close> values,
  each normalised, and nothing else is allowed.
\<close>

theorem read_user_data_allowed:
  assumes "read_user_data cfg w u st = (Inr (Some r), st')"
  shows "set [''read_item'', ''list_items''] \<subseteq> set (allowed r) \<and>
     (''update_item'' \<in> set (allowed r) \<longleftrightarrow>
        set (groups_with_edit_rights cfg) \<inter> set (groups r) \<noteq> {}) \<and>
     allowed r = [''read_item'', ''list_items''] @
        (if set (groups_with_edit_rights cfg) \<inter> set (groups r) \<noteq> {}
         then [''update_item''] else []) \<and>
     (\<exists>dn attrs gs.
        search_ext_s w (ldap_base_dn cfg) (ldap_scope cfg)
          (''(&(cn='' @ u @ '')(objectClass=urrzUser))'') 5 = Inr [(dn, attrs)] \<and>
        map_of attrs ''groupMembership'' = Some gs \<and>
        groups r = map normalize_group gs)"
proof -
  let ?q = "''(&(cn='' @ u @ '')(objectClass=urrzUser))''"
  from assms obtain results where
    s: "search_ext_s w (ldap_base_dn cfg) (ldap_scope cfg) ?q 5 = Inr results"
    by (cases "search_ext_s w (ldap_base_dn cfg) (ldap_scope cfg) ?q 5")
       (auto simp: read_user_data_def Let_def split: if_splits)
  from assms s obtain dn attrs where res: "results = [(dn, attrs)]"
    by (cases results rule: list.exhaust; cases "tl results")
       (auto simp: read_user_data_def Let_def split: list.splits)
  from assms s res obtain gs where g: "map_of attrs ''groupMembership'' = Some gs"
    by (cases "map_of attrs ''groupMembership''") (auto simp: read_user_data_def Let_def)
  from assms s res g obtain grps where c: "collect_groups gs [] = Inr grps"
    by (cases "collect_groups gs []") (auto simp: read_user_data_def Let_def)
  from collect_groups_Inr[OF c] have grps: "grps = map normalize_group gs" by simp
  from assms s res g c
  have r: "groups r = grps \<and>
     allowed r = (if set (groups_with_edit_rights cfg) \<inter> set grps \<noteq> {}
        then [''read_item'', ''list_items''] @ [''update_item'']
        else [''read_item'', ''list_items''])"
    by (auto simp: read_user_data_def Let_def split: sum.splits)
  then have a: "allowed r = [''read_item'', ''list_items''] @
        (if set (groups_with_edit_rights cfg) \<inter> set (groups r) \<noteq> {}
         then [''update_item''] else [])"
    by simp
  have m: "set [''read_item'', ''list_items''] \<subseteq> set (allowed r)" by (subst a) simp
  have i: "''update_item'' \<in> set (allowed r) \<longleftrightarrow>
        set (groups_with_edit_rights cfg) \<inter> set (groups r) \<noteq> {}"
    by (subst a) simp
  from s res g r grps have e: "\<exists>dn attrs gs.
        search_ext_s w (ldap_base_dn cfg) (ldap_scope cfg) ?q 5 = Inr [(dn, attrs)] \<and>
        map_of attrs ''groupMembership'' = Some gs \<and>
        groups r = map normalize_group gs" by blast
  from m i a e show ?thesis by blast
qed

theorem read_user_data_allowed_witness:
  "read_user_data example_settings example_env ''abc12345'' initial_state =
     (Inr (Some example_user), py_print (PrintResult (snd example_entry)) initial_state) \<and>
   ''update_item'' \<in> set (allowed example_user) \<and>
   set (groups_with_edit_rights example_settings) \<inter> set (groups example_user) \<noteq> {}"
proof -
  have h: "read_user_data example_settings example_env ''abc12345'' initial_state =
     (Inr (Some example_user), py_print (PrintResult (snd example_entry)) initial_state)"
    by code_simp
  have u: "''update_item'' \<in> set (allowed example_user)" by (simp add: example_user_def)
  from read_user_data_allowed[OF h] h u show ?thesis by blast
qed

subsection \<open>The uid of a page\<close>

lemma fetch_pages_skip:
  "map_of page ''id'' = Some page_id \<Longrightarrow> uid_of_page_id page_id = None \<Longrightarrow>
   fetch_pages cfg w (page # pages) st =
     fetch_pages cfg w pages (py_print (NotAnItem (last (py_split (CHR '':'') page_id))) st)"
  by (simp add: uid_of_page_id_def Let_def)

lemma fetch_pages_item:
  "map_of page ''id'' = Some page_id \<Longrightarrow> uid_of_page_id page_id = Some n \<Longrightarrow>
   fetch_pages cfg w (page # pages) st =
     (case get_dataentry cfg w n st of
        (Inl e, st') \<Rightarrow> (Inl e, st')
      | (Inr data, st') \<Rightarrow> fetch_pages cfg w pages (st'\<lparr>cache := AList.update n data (cache st')\<rparr>))"
  by (simp add: uid_of_page_id_def Let_def)

lemma fetch_pages_no_items:
  "\<forall>p \<in> set ps. \<exists>page_id. map_of p ''id'' = Some page_id \<and> uid_of_page_id page_id = None \<Longrightarrow>
   \<exists>st'. fetch_pages cfg w ps st = (Inr (), st') \<and> cache st' = cache st"
proof (induction ps arbitrary: st)
  case Nil
  then show ?case by simp
next
  case (Cons p ps)
  from Cons.prems obtain page_id where
    p: "map_of p ''id'' = Some page_id" "uid_of_page_id page_id = None" by auto
  from Cons.prems have "\<forall>p \<in> set ps. \<exists>page_id. map_of p ''id'' = Some page_id \<and> uid_of_page_id page_id = None"
    by simp
  from Cons.IH[OF this, of "py_print (NotAnItem (last (py_split (CHR '':'') page_id))) st"]
  obtain st' where
    "fetch_pages cfg w ps (py_print (NotAnItem (last (py_split (CHR '':'') page_id))) st) = (Inr (), st')"
    and "cache st' = cache st"
    by (auto simp: py_print_def)
  then show ?case by (simp add: fetch_pages_skip[OF p] del: fetch_pages.simps)
qed

text \<open>
  Claim C7. The refresh loop parses the last colon-separated segment of a page's id: the
  id \<^verbatim>\<open>lab:ausstattung:042\<close> gives uid 42 and \<^verbatim>\<open>lab:ausstattung:readme\<close> gives none. A page
  with a uid is fetched under it; a page without is reported and passed over, and the
  loop goes on with the next page. A run over pages of which none has an integer segment
  ends without error, whatever the backend, and leaves the cache as it was.
\<close>

theorem page_id_suffix_is_uid:
  "uid_of_page_id ''lab:ausstattung:042'' = Some 42 \<and>
   uid_of_page_id ''lab:ausstattung:readme'' = None \<and>
   (\<forall>page page_id pages st. map_of page ''id'' = Some page_id \<longrightarrow>
      (case uid_of_page_id page_id of
         None \<Rightarrow>
           fetch_pages cfg w (page # pages) st =
             fetch_pages cfg w pages (py_print (NotAnItem (last (py_split (CHR '':'') page_id))) st)
       | Some n \<Rightarrow>
           fetch_pages cfg w (page # pages) st =
             (case get_dataentry cfg w n st of
                (Inl e, st') \<Rightarrow> (Inl e, st')
              | (Inr data, st') \<Rightarrow>
                  fetch_pages cfg w pages (st'\<lparr>cache := AList.update n data (cache st')\<rparr>)))) \<and>
   (\<forall>ps st.
      (\<forall>p \<in> set ps. \<exists>page_id. map_of p ''id'' = Some page_id \<and> uid_of_page_id page_id = None) \<longrightarrow>
      (\<exists>st'. fetch_pages cfg w ps st = (Inr (), st') \<and> cache st' = cache st))"
proof -
  have a: "uid_of_page_id ''lab:ausstattung:042'' = Some 42" by code_simp
  have b: "uid_of_page_id ''lab:ausstattung:readme'' = None" by code_simp
  have c: "case uid_of_page_id page_id of
         None \<Rightarrow>
           fetch_pages cfg w (page # pages) st =
             fetch_pages cfg w pages (py_print (NotAnItem (last (py_split (CHR '':'') page_id))) st)
       | Some n \<Rightarrow>
           fetch_pages cfg w (page # pages) st =
             (case get_dataentry cfg w n st of
                (Inl e, st') \<Rightarrow> (Inl e, st')
              | (Inr data, st') \<Rightarrow>
                  fetch_pages cfg w pages (st'\<lparr>cache := AList.update n data (cache st')\<rparr>))"
    if "map_of page ''id'' = Some page_id" for page page_id pages st
    using that
    by (cases "uid_of_page_id page_id")
       (simp_all add: fetch_pages_skip fetch_pages_item del: fetch_pages.simps)
  from a b c fetch_pages_no_items[of _ cfg w] show ?thesis by blast
qed

theorem page_id_suffix_is_uid_witness:
  "map_of [(''id'', ''lab:ausstattung:readme'')] ''id'' = Some ''lab:ausstattung:readme'' \<and>
   uid_of_page_id ''lab:ausstattung:readme'' = None \<and>
   fetch_pages example_settings unreachable_env [[(''id'', ''lab:ausstattung:readme'')]] initial_state =
     (Inr (), py_print (NotAnItem ''readme'') initial_state) \<and>
   fst (update_cache example_settings example_env None initial_state) = Inr 1700000000 \<and>
   map fst (cache (snd (update_cache example_settings example_env None initial_state))) = [42, 43]"
proof -
  have m: "map_of [(''id'', ''lab:ausstattung:readme'')] ''id'' = Some ''lab:ausstattung:readme''"
    by simp
  have l: "last (py_split (CHR '':'') ''lab:ausstattung:readme'') = ''readme''" by code_simp
  have u: "fst (update_cache example_settings example_env None initial_state) = Inr 1700000000"
    by code_simp
  have k: "map fst (cache (snd (update_cache example_settings example_env None initial_state))) = [42, 43]"
    by code_simp
  from page_id_suffix_is_uid[of example_settings unreachable_env]
  have n: "uid_of_page_id ''lab:ausstattung:readme'' = None"
    and s: "\<forall>page page_id pages st. map_of page ''id'' = Some page_id \<longrightarrow>
      (case uid_of_page_id page_id of
         None \<Rightarrow>
           fetch_pages example_settings unreachable_env (page # pages) st =
             fetch_pages example_settings unreachable_env pages
               (py_print (NotAnItem (last (py_split (CHR '':'') page_id))) st)
       | Some n \<Rightarrow>
           fetch_pages example_settings unreachable_env (page # pages) st =
             (case get_dataentry example_settings unreachable_env n st of
                (Inl e, st') \<Rightarrow> (Inl e, st')
              | (Inr data, st') \<Rightarrow>
                  fetch_pages example_settings unreachable_env pages
                    (st'\<lparr>cache := AList.update n data (cache st')\<rparr>)))"
    by blast+
  from s m have "case uid_of_page_id ''lab:ausstattung:readme'' of
         None \<Rightarrow>
           fetch_pages example_settings unreachable_env ([(''id'', ''lab:ausstattung:readme'')] # []) initial_state =
             fetch_pages example_settings unreachable_env []
               (py_print (NotAnItem (last (py_split (CHR '':'') ''lab:ausstattung:readme''))) initial_state)
       | Some n \<Rightarrow>
           fetch_pages example_settings unreachable_env ([(''id'', ''lab:ausstattung:readme'')] # []) initial_state =
             (case get_dataentry example_settings unreachable_env n initial_state of
                (Inl e, st') \<Rightarrow> (Inl e, st')
              | (Inr data, st') \<Rightarrow>
                  fetch_pages example_settings unreachable_env []
                    (st'\<lparr>cache := AList.update n data (cache st')\<rparr>))"
    by blast
  with n l have f: "fetch_pages example_settings unreachable_env [[(''id'', ''lab:ausstattung:readme'')]] initial_state =
     (Inr (), py_print (NotAnItem ''readme'') initial_state)"
    by simp
  from m n f u k show ?thesis by blast
qed

subsection \<open>The reverse mapping\<close>

text \<open>
  Claim C4, as amended. The reverse field map is the forward map with every pair turned
  round, the pair of \<open>uid\<close> and \<^verbatim>\<open>ID\<close> included. For every \<open>Item\<close>, \<open>item_to_dw\<close> emits the
  twelve raw field names, \<^verbatim>\<open>ID\<close> first; the one field of \<open>Item\<close> it never emits is
  \<open>url\<close>, which has no entry in the map.
\<close>

theorem item_to_dw_emits_ID:
  "map fst (item_to_dw item) =
     [''ID'', ''Typ_devicetypes'', ''Name'', ''Standort'', ''OS'',
      ''Zubeh'' @ [CHR 0xC3, CHR 0xB6] @ ''r'', ''Seriennummern'', ''Status_devicestat'',
      ''Ausleiher'', ''Von_dt'', ''Bis_dt'', ''Anmerkungen''] \<and>
   map_of (item_to_dw item) ''ID'' = Some (PField (ModelField ''uid'' OptionalInt)) \<and>
   map_of I_TO_DW ''uid'' = Some ''ID'' \<and>
   set I_TO_DW = (\<lambda>(key, val). (val, key)) ` set DW_TO_I \<and>
   filter (\<lambda>k. map_of I_TO_DW k = None) (map fst Item_fields) = [''url'']"
proof -
  have a: "map fst (item_to_dw item) =
     [''ID'', ''Typ_devicetypes'', ''Name'', ''Standort'', ''OS'',
      ''Zubeh'' @ [CHR 0xC3, CHR 0xB6] @ ''r'', ''Seriennummern'', ''Status_devicestat'',
      ''Ausleiher'', ''Von_dt'', ''Bis_dt'', ''Anmerkungen'']"
    unfolding item_to_dw_def by code_simp
  have b: "map_of (item_to_dw item) ''ID'' = Some (PField (ModelField ''uid'' OptionalInt))"
    unfolding item_to_dw_def by code_simp
  have c: "map_of I_TO_DW ''uid'' = Some ''ID''" by code_simp
  have d: "set I_TO_DW = (\<lambda>(key, val). (val, key)) ` set DW_TO_I" by code_simp
  have e: "filter (\<lambda>k. map_of I_TO_DW k = None) (map fst Item_fields) = [''url'']" by code_simp
  from a b c d e show ?thesis by blast
qed

theorem item_to_dw_emits_ID_witness:
  "map_of (item_to_dw item_042) ''ID'' = Some (PField (ModelField ''uid'' OptionalInt)) \<and>
   length (item_to_dw item_042) = 12"
proof -
  from item_to_dw_emits_ID[of item_042]
  have a: "map fst (item_to_dw item_042) =
     [''ID'', ''Typ_devicetypes'', ''Name'', ''Standort'', ''OS'',
      ''Zubeh'' @ [CHR 0xC3, CHR 0xB6] @ ''r'', ''Seriennummern'', ''Status_devicestat'',
      ''Ausleiher'', ''Von_dt'', ''Bis_dt'', ''Anmerkungen'']"
   and b: "map_of (item_to_dw item_042) ''ID'' = Some (PField (ModelField ''uid'' OptionalInt))"
    by blast+
  from a have "length (map fst (item_to_dw item_042)) = 12" by simp
  with b show ?thesis by simp
qed

text \<open>
  Claim C4 fails as stated: \<open>uid\<close> is in the reverse map, and the raw record produced for
  the example item has the field \<^verbatim>\<open>ID\<close>.
\<close>

theorem item_to_dw_uid_counterexample:
  "map_of I_TO_DW ''uid'' = Some ''ID'' \<and>
   map_of (item_to_dw item_042) ''ID'' = Some (PField (ModelField ''uid'' OptionalInt))"
  by code_simp

text \<open>
  Claim C1 at the raw record of page 042, in which all twelve mapped fields are populated:
  the record maps to \<open>item_042\<close>, and mapping that back gives, under every raw field name,
  pydantic's description of the field and not the value; no field of the original record
  comes back with its value.
\<close>

theorem roundtrip_returns_field_descriptions:
  "fst (dw_to_item example_env raw_042 initial_state) = Inr item_042 \<and>
   map_of raw_042 ''Name'' = Some ''ThinkPad X1'' \<and>
   map_of (item_to_dw item_042) ''Name'' = Some (PField (ModelField ''name'' OptionalStr)) \<and>
   list_all (\<lambda>(k, v). map_of (item_to_dw item_042) k \<noteq> Some (PStr v)) raw_042"
  by code_simp

subsection \<open>Where the uid of an item comes from\<close>

lemma DW_TO_I_uid: "map_of DW_TO_I k = Some ''uid'' \<longleftrightarrow> k = ''ID''"
  by (simp add: DW_TO_I_def)

lemma dw_to_item_step_uid:
  "map_of (dw_to_item_step d k fs) ''uid'' =
     (if k = ''ID'' then
        (case map_of d ''ID'' of
           None \<Rightarrow> map_of fs ''uid''
         | Some v \<Rightarrow> Some (if v \<noteq> [] then PStr v else PNone))
      else map_of fs ''uid'')"
proof (cases "map_of DW_TO_I k")
  case None
  then have "k \<noteq> ''ID''" using DW_TO_I_uid[of k] by auto
  with None show ?thesis by (simp add: dw_to_item_step_def)
next
  case (Some t)
  show ?thesis
  proof (cases "k = ''ID''")
    case True
    with Some have "t = ''uid''" using DW_TO_I_uid[of k] by simp
    with Some True show ?thesis
      by (simp add: dw_to_item_step_def update_conv' split: option.splits)
  next
    case False
    with Some have "t \<noteq> ''uid''" using DW_TO_I_uid[of k] by auto
    with Some False show ?thesis
      by (simp add: dw_to_item_step_def update_conv' split: option.splits)
  qed
qed

lemma fold_dw_to_item_step_uid:
  "map_of (fold (dw_to_item_step d) ks fs) ''uid'' =
     (if ''ID'' \<in> set ks then
        (case map_of d ''ID'' of
           None \<Rightarrow> map_of fs ''uid''
         | Some v \<Rightarrow> Some (if v \<noteq> [] then PStr v else PNone))
      else map_of fs ''uid'')"
  by (induction ks arbitrary: fs) (auto simp: dw_to_item_step_uid split: option.splits)

lemma collect_item_fields_uid:
  "map_of (collect_item_fields d) ''uid'' =
     map_option (\<lambda>v. if v \<noteq> [] then PStr v else PNone) (map_of d ''ID'')"
proof (cases "map_of d ''ID''")
  case None
  then have "''ID'' \<notin> set (map fst d)" by (simp add: map_of_eq_None_iff)
  with None show ?thesis by (simp add: collect_item_fields_def fold_dw_to_item_step_uid)
next
  case (Some v)
  then have "''ID'' \<in> set (map fst d)" by (force dest: map_of_SomeD)
  with Some show ?thesis by (simp add: collect_item_fields_def fold_dw_to_item_step_uid)
qed

lemma special_cases_uid:
  "special_cases fs st = (fs', st') \<Longrightarrow> map_of fs' ''uid'' = map_of fs ''uid''"
  by (auto simp: special_cases_def update_conv' split: option.splits pyval.splits)

lemma Item_init_uid:
  "Item_init pd fs = Inr it \<Longrightarrow> int_validator (map_of fs ''uid'') = Some (uid it)"
  by (auto simp: Item_init_def validate_fields_def split: option.splits Option.bind_splits)

lemma dw_to_item_uid:
  assumes "dw_to_item w d st = (Inr it, st')"
  shows "uid it = (case map_of d ''ID'' of
                     None \<Rightarrow> None
                   | Some v \<Rightarrow> if v = [] then None else py_int v)"
proof -
  obtain fs st1 where sc: "special_cases (collect_item_fields d) st = (fs, st1)"
    by (cases "special_cases (collect_item_fields d) st")
  with assms have "Item_init (parse_date w) fs = Inr it" by (simp add: dw_to_item_def)
  from Item_init_uid[OF this] special_cases_uid[OF sc]
  have "int_validator (map_of (collect_item_fields d) ''uid'') = Some (uid it)" by simp
  then show ?thesis
    by (auto simp: collect_item_fields_uid int_validator_def split: option.splits if_splits)
qed

lemma fetch_pages_keys:
  "fst ` set (cache (snd (fetch_pages cfg w ps st))) \<subseteq>
     fst ` set (cache st) \<union>
     {n. \<exists>p \<in> set ps. \<exists>page_id. map_of p ''id'' = Some page_id \<and> uid_of_page_id page_id = Some n}"
proof (induction ps arbitrary: st)
  case Nil
  then show ?case by simp
next
  case (Cons p ps)
  show ?case
  proof (cases "map_of p ''id''")
    case None
    then show ?thesis by simp
  next
    case (Some page_id)
    note pid = Some
    show ?thesis
    proof (cases "uid_of_page_id page_id")
      case None
      from Cons.IH[of "py_print (NotAnItem (last (py_split (CHR '':'') page_id))) st"]
      show ?thesis
        by (simp add: fetch_pages_skip[OF pid None] del: fetch_pages.simps)
           (auto simp: py_print_def)
    next
      case (Some n)
      note un = Some
      obtain r st1 where g: "get_dataentry cfg w n st = (r, st1)"
        by (cases "get_dataentry cfg w n st")
      from get_dataentry_frame[OF g] have c: "cache st1 = cache st" by simp
      show ?thesis
      proof (cases r)
        case (Inl e)
        with g c show ?thesis
          by (simp add: fetch_pages_item[OF pid un] del: fetch_pages.simps)
      next
        case (Inr data)
        from Cons.IH[of "st1\<lparr>cache := AList.update n data (cache st1)\<rparr>"] g c Inr pid un
        show ?thesis
          by (auto simp: fetch_pages_item[OF pid un] dom_update simp del: fetch_pages.simps)
      qed
    qed
  qed
qed

lemma select_changed_frame:
  "select_changed cfg ps acc st = (r, st') \<Longrightarrow>
   cache st' = cache st \<and> last_checked_ts st' = last_checked_ts st"
proof (induction ps arbitrary: acc st)
  case Nil
  then show ?case by simp
next
  case (Cons p ps)
  show ?case
  proof (cases "map_of p ''name''")
    case None
    with Cons.prems show ?thesis by (auto simp: Let_def py_print_def)
  next
    case (Some n)
    show ?thesis
    proof (cases "prefix (wiki_path cfg) n")
      case True
      with Cons.prems Some
      have "select_changed cfg ps (acc @ [AList.update ''id'' n p]) (py_print (PrintPage p) st) = (r, st')"
        by (simp add: Let_def)
      from Cons.IH[OF this] show ?thesis by (simp add: py_print_def)
    next
      case False
      with Cons.prems Some
      have "select_changed cfg ps acc (py_print (PrintPage p) st) = (r, st')"
        by (simp add: Let_def)
      from Cons.IH[OF this] show ?thesis by (simp add: py_print_def)
    qed
  qed
qed

lemma changed_item_pages_cache:
  "changed_item_pages cfg w since_ts st = (r, st1) \<Longrightarrow>
   cache st1 = (if truthy since_ts then cache st else []) \<and>
   last_checked_ts st1 = last_checked_ts st"
  by (auto simp: changed_item_pages_def Let_def py_print_def
      split: if_splits sum.splits prod.splits dest: select_changed_frame)

lemma finish_update_cache: "cache (snd (finish_update w r)) = cache (snd r)"
  by (auto simp: finish_update_def py_print_def split: prod.splits sum.splits)

text \<open>
  Claim C5, as amended. The key under which a refresh stores a page's record is read off
  the page identifier alone: after \<open>update_cache\<close>, every key of the cache is a key it had
  before (none, if the cache was rebuilt) or the integer that the last segment of the id
  of one of the pages parses to, so a page whose segment does not parse adds no entry.
  The \<open>uid\<close> of an \<open>Item\<close>, however, is not taken from the page identifier: it is the
  integer value of the record's content field \<^verbatim>\<open>ID\<close>, and absent when the record has no
  \<^verbatim>\<open>ID\<close> or an empty one.
\<close>

theorem cache_key_from_page_id_uid_from_content:
  "(\<forall>since_ts st ps st1. changed_item_pages cfg w since_ts st = (Inr ps, st1) \<longrightarrow>
      fst ` set (cache (snd (update_cache cfg w since_ts st))) \<subseteq>
        (if truthy since_ts then fst ` set (cache st) else {}) \<union>
        {n. \<exists>p \<in> set ps. \<exists>page_id.
              map_of p ''id'' = Some page_id \<and> uid_of_page_id page_id = Some n}) \<and>
   (\<forall>dataentry st it st'. dw_to_item w dataentry st = (Inr it, st') \<longrightarrow>
      uid it = (case map_of dataentry ''ID'' of
                  None \<Rightarrow> None
                | Some v \<Rightarrow> if v = [] then None else py_int v))"
proof (intro conjI allI impI)
  fix since_ts st ps st1
  assume h: "changed_item_pages cfg w since_ts st = (Inr ps, st1)"
  then have u: "update_cache cfg w since_ts st = finish_update w (fetch_pages cfg w ps st1)"
    by (simp add: update_cache_def)
  from changed_item_pages_cache[OF h]
  have c: "cache st1 = (if truthy since_ts then cache st else [])" by simp
  have k: "fst ` set (cache (snd (fetch_pages cfg w ps st1))) \<subseteq>
     fst ` set (cache st1) \<union>
     {n. \<exists>p \<in> set ps. \<exists>page_id. map_of p ''id'' = Some page_id \<and> uid_of_page_id page_id = Some n}"
    by (rule fetch_pages_keys)
  show "fst ` set (cache (snd (update_cache cfg w since_ts st))) \<subseteq>
        (if truthy since_ts then fst ` set (cache st) else {}) \<union>
        {n. \<exists>p \<in> set ps. \<exists>page_id.
              map_of p ''id'' = Some page_id \<and> uid_of_page_id page_id = Some n}"
  proof (cases "truthy since_ts")
    case True
    with k c show ?thesis by (simp add: u finish_update_cache)
  next
    case False
    with k c show ?thesis by (simp add: u finish_update_cache)
  qed
next
  fix dataentry st it st'
  assume "dw_to_item w dataentry st = (Inr it, st')"
  then show "uid it = (case map_of dataentry ''ID'' of
                  None \<Rightarrow> None
                | Some v \<Rightarrow> if v = [] then None else py_int v)"
    by (rule dw_to_item_uid)
qed

theorem cache_key_from_page_id_uid_from_content_witness:
  "dw_to_item example_env raw_007 initial_state = (Inr item_007, initial_state) \<and>
   map_of raw_007 ''ID'' = Some ''8'' \<and>
   uid item_007 = py_int ''8'' \<and>
   changed_item_pages example_settings example_env None initial_state =
     (Inr [[(''id'', ''lab:ausstattung:042'')], [(''id'', ''lab:ausstattung:readme'')],
           [(''id'', ''lab:ausstattung:043'')]], initial_state) \<and>
   map fst (cache (snd (update_cache example_settings example_env None initial_state))) = [42, 43]"
proof -
  have d: "dw_to_item example_env raw_007 initial_state = (Inr item_007, initial_state)"
    by code_simp
  have m: "map_of raw_007 ''ID'' = Some ''8''" by code_simp
  have c: "changed_item_pages example_settings example_env None initial_state =
     (Inr [[(''id'', ''lab:ausstattung:042'')], [(''id'', ''lab:ausstattung:readme'')],
           [(''id'', ''lab:ausstattung:043'')]], initial_state)"
    by code_simp
  have k: "map fst (cache (snd (update_cache example_settings example_env None initial_state))) = [42, 43]"
    by code_simp
  from cache_key_from_page_id_uid_from_content[of example_settings example_env]
  have "\<forall>dataentry st it st'. dw_to_item example_env dataentry st = (Inr it, st') \<longrightarrow>
      uid it = (case map_of dataentry ''ID'' of
                  None \<Rightarrow> None
                | Some v \<Rightarrow> if v = [] then None else py_int v)"
    by blast
  with d have "uid item_007 = (case map_of raw_007 ''ID'' of
                  None \<Rightarrow> None
                | Some v \<Rightarrow> if v = [] then None else py_int v)"
    by blast
  with m have u: "uid item_007 = py_int ''8''" by simp
  from d m u c k show ?thesis by blast
qed

text \<open>
  Claim C5 fails as stated: the page \<^verbatim>\<open>lab:ausstattung:007\<close> has the suffix 7 and is cached
  under the key 7, and its record says \<^verbatim>\<open>ID : 8\<close>; the item listed for it has the uid 8.
\<close>

theorem uid_from_page_id_counterexample:
  "uid_of_page_id ''lab:ausstattung:007'' = Some 7 \<and>
   fst (list_items example_settings example_env (initial_state\<lparr>last_checked_ts := Some 1600000000\<rparr>)) =
     Inr [item_007] \<and>
   map fst (cache (snd (list_items example_settings example_env
      (initial_state\<lparr>last_checked_ts := Some 1600000000\<rparr>)))) = [7] \<and>
   uid item_007 = Some 8"
  by code_simp

subsection \<open>A refresh and the pages that fail\<close>

lemma get_dataentry_stdout:
  "get_dataentry cfg w n st = (r, st') \<Longrightarrow> set (stdout st) \<subseteq> set (stdout st')"
  by (auto simp: get_dataentry_def Let_def py_print_def split: sum.splits if_splits)

lemma not_raises_id:
  "\<not> raises (page_outcome cfg w p) \<Longrightarrow> \<exists>page_id. map_of p ''id'' = Some page_id"
  by (cases "map_of p ''id''") (auto simp: page_outcome_def raises_def)

lemma not_raises_fetch:
  assumes "\<not> raises (page_outcome cfg w p)"
    and "map_of p ''id'' = Some page_id" and "uid_of_page_id page_id = Some n"
  shows "\<exists>data st'. get_dataentry cfg w n st = (Inr data, st')"
proof -
  from assms obtain data where "fst (get_dataentry cfg w n initial_state) = Inr data"
    by (cases "fst (get_dataentry cfg w n initial_state)")
       (auto simp: page_outcome_def raises_def)
  then have "fst (get_dataentry cfg w n st) = Inr data"
    using get_dataentry_result_state[of cfg w n st initial_state] by simp
  then show ?thesis by (cases "get_dataentry cfg w n st") auto
qed

lemma outcome_Inl_fetch:
  assumes "page_outcome cfg w p = Inl e"
  shows "fst (fetch_pages cfg w (p # ps) st) = Inl e"
proof (cases "map_of p ''id''")
  case None
  with assms show ?thesis by (simp add: page_outcome_def)
next
  case (Some page_id)
  note pid = Some
  show ?thesis
  proof (cases "uid_of_page_id page_id")
    case None
    with assms pid show ?thesis by (simp add: page_outcome_def)
  next
    case (Some n)
    with assms pid have "fst (get_dataentry cfg w n initial_state) = Inl e"
      by (auto simp: page_outcome_def split: sum.splits)
    then have "fst (get_dataentry cfg w n st) = Inl e"
      using get_dataentry_result_state[of cfg w n st initial_state] by simp
    then obtain st' where "get_dataentry cfg w n st = (Inl e, st')"
      by (cases "get_dataentry cfg w n st") auto
    then show ?thesis
      by (simp add: fetch_pages_item[OF pid Some] del: fetch_pages.simps)
  qed
qed

lemma fetch_pages_complete:
  "\<forall>p \<in> set ps. \<not> raises (page_outcome cfg w p) \<Longrightarrow>
   \<exists>st'. fetch_pages cfg w ps st = (Inr (), st') \<and>
     set (stdout st) \<subseteq> set (stdout st') \<and>
     (\<forall>p \<in> set ps. \<forall>page_id n.
        map_of p ''id'' = Some page_id \<longrightarrow> uid_of_page_id page_id = Some n \<longrightarrow>
        pages_info w (wiki_path cfg @ format_03d n) = Inr [] \<longrightarrow>
        PageDoesNotExist (wiki_path cfg @ format_03d n) \<in> set (stdout st'))"
proof (induction ps arbitrary: st)
  case Nil
  then show ?case by simp
next
  case (Cons p ps)
  from Cons.prems have ok: "\<not> raises (page_outcome cfg w p)"
    and rest: "\<forall>p \<in> set ps. \<not> raises (page_outcome cfg w p)" by simp_all
  from not_raises_id[OF ok] obtain page_id where pid: "map_of p ''id'' = Some page_id" ..
  show ?case
  proof (cases "uid_of_page_id page_id")
    case None
    let ?s = "py_print (NotAnItem (last (py_split (CHR '':'') page_id))) st"
    from Cons.IH[OF rest, of ?s] obtain st' where
      f: "fetch_pages cfg w ps ?s = (Inr (), st')" and m: "set (stdout ?s) \<subseteq> set (stdout st')"
      and l: "\<forall>p \<in> set ps. \<forall>page_id n.
        map_of p ''id'' = Some page_id \<longrightarrow> uid_of_page_id page_id = Some n \<longrightarrow>
        pages_info w (wiki_path cfg @ format_03d n) = Inr [] \<longrightarrow>
        PageDoesNotExist (wiki_path cfg @ format_03d n) \<in> set (stdout st')"
      by blast
    from f have f': "fetch_pages cfg w (p # ps) st = (Inr (), st')"
      by (simp add: fetch_pages_skip[OF pid None] del: fetch_pages.simps)
    from m have m': "set (stdout st) \<subseteq> set (stdout st')" by (auto simp: py_print_def)
    from l pid None have l': "\<forall>q \<in> set (p # ps). \<forall>page_id n.
        map_of q ''id'' = Some page_id \<longrightarrow> uid_of_page_id page_id = Some n \<longrightarrow>
        pages_info w (wiki_path cfg @ format_03d n) = Inr [] \<longrightarrow>
        PageDoesNotExist (wiki_path cfg @ format_03d n) \<in> set (stdout st')"
      by auto
    from f' m' l' show ?thesis by blast
  next
    case (Some n)
    from not_raises_fetch[OF ok pid Some, of st] obtain data st1 where
      g: "get_dataentry cfg w n st = (Inr data, st1)" by blast
    let ?s = "st1\<lparr>cache := AList.update n data (cache st1)\<rparr>"
    from Cons.IH[OF rest, of ?s] obtain st' where
      f: "fetch_pages cfg w ps ?s = (Inr (), st')" and m: "set (stdout ?s) \<subseteq> set (stdout st')"
      and l: "\<forall>p \<in> set ps. \<forall>page_id n.
        map_of p ''id'' = Some page_id \<longrightarrow> uid_of_page_id page_id = Some n \<longrightarrow>
        pages_info w (wiki_path cfg @ format_03d n) = Inr [] \<longrightarrow>
        PageDoesNotExist (wiki_path cfg @ format_03d n) \<in> set (stdout st')"
      by blast
    from f g have f': "fetch_pages cfg w (p # ps) st = (Inr (), st')"
      by (simp add: fetch_pages_item[OF pid Some] del: fetch_pages.simps)
    from m get_dataentry_stdout[OF g] have m1: "set (stdout st1) \<subseteq> set (stdout st')"
      and m': "set (stdout st) \<subseteq> set (stdout st')" by auto
    have here: "PageDoesNotExist (wiki_path cfg @ format_03d n) \<in> set (stdout st')"
      if "pages_info w (wiki_path cfg @ format_03d n) = Inr []"
    proof -
      from get_dataentry_missing[OF that, of st] g
      have "st1 = py_print (PageDoesNotExist (wiki_path cfg @ format_03d n)) st" by simp
      then have "PageDoesNotExist (wiki_path cfg @ format_03d n) \<in> set (stdout st1)"
        by (simp add: py_print_def)
      with m1 show ?thesis by blast
    qed
    from l pid Some here have l': "\<forall>q \<in> set (p # ps). \<forall>page_id n.
        map_of q ''id'' = Some page_id \<longrightarrow> uid_of_page_id page_id = Some n \<longrightarrow>
        pages_info w (wiki_path cfg @ format_03d n) = Inr [] \<longrightarrow>
        PageDoesNotExist (wiki_path cfg @ format_03d n) \<in> set (stdout st')"
      by auto
    from f' m' l' show ?thesis by blast
  qed
qed

lemma fetch_pages_abort:
  "\<forall>q \<in> set ps1. \<not> raises (page_outcome cfg w q) \<Longrightarrow> page_outcome cfg w p = Inl e \<Longrightarrow>
   fst (fetch_pages cfg w (ps1 @ p # ps2) st) = Inl e"
proof (induction ps1 arbitrary: st)
  case Nil
  then show ?case by (simp add: outcome_Inl_fetch del: fetch_pages.simps)
next
  case (Cons q ps1)
  from Cons.prems have ok: "\<not> raises (page_outcome cfg w q)"
    and rest: "\<forall>q \<in> set ps1. \<not> raises (page_outcome cfg w q)" by simp_all
  from not_raises_id[OF ok] obtain page_id where pid: "map_of q ''id'' = Some page_id" ..
  show ?case
  proof (cases "uid_of_page_id page_id")
    case None
    from Cons.IH[OF rest Cons.prems(2)] show ?thesis
      by (simp add: fetch_pages_skip[OF pid None] del: fetch_pages.simps)
  next
    case (Some n)
    from not_raises_fetch[OF ok pid Some, of st] obtain data st1 where
      g: "get_dataentry cfg w n st = (Inr data, st1)" by blast
    from Cons.IH[OF rest Cons.prems(2)] g show ?thesis
      by (simp add: fetch_pages_item[OF pid Some] del: fetch_pages.simps)
  qed
qed

lemma finish_update_fst:
  "fst (finish_update w r) = (case fst r of Inl e \<Rightarrow> Inl e | Inr u \<Rightarrow> Inr (clock w))"
  by (auto simp: finish_update_def split: prod.splits sum.splits)

text \<open>
  Claim C3, as amended. Let a refresh, full or incremental, run over the pages \<open>ps\<close>. A
  page that does not exist is reported on standard output and does not stop the refresh:
  if no page of \<open>ps\<close> makes the loop raise, the refresh goes through all of them and
  returns the reading of the clock as the new watermark, and the report of every page
  that does not exist is among the lines printed. An exception from the fetch of a page
  is not absorbed: the first page of \<open>ps\<close> that makes the loop raise ends the refresh with
  that exception, and no watermark is returned.
\<close>

theorem refresh_completes_unless_a_fetch_raises:
  assumes "changed_item_pages cfg w since_ts st = (Inr ps, st1)"
  shows "((\<forall>p \<in> set ps. \<not> raises (page_outcome cfg w p)) \<longrightarrow>
      (\<exists>st'. update_cache cfg w since_ts st = (Inr (clock w), st') \<and>
         (\<forall>p \<in> set ps. \<forall>page_id n.
            map_of p ''id'' = Some page_id \<longrightarrow> uid_of_page_id page_id = Some n \<longrightarrow>
            pages_info w (wiki_path cfg @ format_03d n) = Inr [] \<longrightarrow>
            PageDoesNotExist (wiki_path cfg @ format_03d n) \<in> set (stdout st')))) \<and>
     (\<forall>ps1 p ps2 e. ps = ps1 @ p # ps2 \<longrightarrow>
        (\<forall>q \<in> set ps1. \<not> raises (page_outcome cfg w q)) \<longrightarrow>
        page_outcome cfg w p = Inl e \<longrightarrow>
        fst (update_cache cfg w since_ts st) = Inl e)"
proof (intro conjI allI impI)
  assume "\<forall>p \<in> set ps. \<not> raises (page_outcome cfg w p)"
  from fetch_pages_complete[OF this, of st1] obtain st2 where
    f: "fetch_pages cfg w ps st1 = (Inr (), st2)"
    and l: "\<forall>p \<in> set ps. \<forall>page_id n.
        map_of p ''id'' = Some page_id \<longrightarrow> uid_of_page_id page_id = Some n \<longrightarrow>
        pages_info w (wiki_path cfg @ format_03d n) = Inr [] \<longrightarrow>
        PageDoesNotExist (wiki_path cfg @ format_03d n) \<in> set (stdout st2)"
    by blast
  let ?st' = "py_print (CacheSize (length (cache st2))) st2"
  from assms f have u: "update_cache cfg w since_ts st = (Inr (clock w), ?st')"
    by (simp add: update_cache_def finish_update_def)
  have "set (stdout st2) \<subseteq> set (stdout ?st')" by (auto simp: py_print_def)
  with l have "\<forall>p \<in> set ps. \<forall>page_id n.
        map_of p ''id'' = Some page_id \<longrightarrow> uid_of_page_id page_id = Some n \<longrightarrow>
        pages_info w (wiki_path cfg @ format_03d n) = Inr [] \<longrightarrow>
        PageDoesNotExist (wiki_path cfg @ format_03d n) \<in> set (stdout ?st')"
    by blast
  with u show "\<exists>st'. update_cache cfg w since_ts st = (Inr (clock w), st') \<and>
         (\<forall>p \<in> set ps. \<forall>page_id n.
            map_of p ''id'' = Some page_id \<longrightarrow> uid_of_page_id page_id = Some n \<longrightarrow>
            pages_info w (wiki_path cfg @ format_03d n) = Inr [] \<longrightarrow>
            PageDoesNotExist (wiki_path cfg @ format_03d n) \<in> set (stdout st'))"
    by blast
next
  fix ps1 p ps2 e
  assume "ps = ps1 @ p # ps2" and "\<forall>q \<in> set ps1. \<not> raises (page_outcome cfg w q)"
    and "page_outcome cfg w p = Inl e"
  with fetch_pages_abort[of ps1 cfg w p e ps2 st1]
  have "fst (fetch_pages cfg w ps st1) = Inl e" by simp
  with assms show "fst (update_cache cfg w since_ts st) = Inl e"
    by (simp add: update_cache_def finish_update_fst)
qed

theorem refresh_completes_unless_a_fetch_raises_witness:
  "changed_item_pages example_settings example_env None initial_state =
     (Inr [[(''id'', ''lab:ausstattung:042'')], [(''id'', ''lab:ausstattung:readme'')],
           [(''id'', ''lab:ausstattung:043'')]], initial_state) \<and>
   list_all (\<lambda>p. \<not> raises (page_outcome example_settings example_env p))
     [[(''id'', ''lab:ausstattung:042'')], [(''id'', ''lab:ausstattung:readme'')],
      [(''id'', ''lab:ausstattung:043'')]] \<and>
   pages_info example_env ''lab:ausstattung:043'' = Inr [] \<and>
   fst (update_cache example_settings example_env None initial_state) = Inr 1700000000 \<and>
   PageDoesNotExist ''lab:ausstattung:043'' \<in>
     set (stdout (snd (update_cache example_settings example_env None initial_state))) \<and>
   page_outcome example_settings failing_env [(''id'', ''lab:ausstattung:043'')] = Inl DokuWikiError \<and>
   fst (update_cache example_settings failing_env None initial_state) = Inl DokuWikiError"
proof -
  let ?p1 = "[(''id'', ''lab:ausstattung:042'')]"
  let ?p2 = "[(''id'', ''lab:ausstattung:readme'')]"
  let ?p3 = "[(''id'', ''lab:ausstattung:043'')]"
  have h: "changed_item_pages example_settings example_env None initial_state =
     (Inr [?p1, ?p2, ?p3], initial_state)"
    by code_simp
  have ok: "list_all (\<lambda>p. \<not> raises (page_outcome example_settings example_env p)) [?p1, ?p2, ?p3]"
    by code_simp
  then have ok': "\<forall>p \<in> set [?p1, ?p2, ?p3]. \<not> raises (page_outcome example_settings example_env p)"
    by (simp only: list_all_iff)
  have i: "pages_info example_env ''lab:ausstattung:043'' = Inr []" by code_simp
  have n: "wiki_path example_settings @ format_03d 43 = ''lab:ausstattung:043''" by code_simp
  have m: "map_of ?p3 ''id'' = Some ''lab:ausstattung:043''" by simp
  have v: "uid_of_page_id ''lab:ausstattung:043'' = Some 43" by code_simp
  have c: "clock example_env = 1700000000" by code_simp
  from refresh_completes_unless_a_fetch_raises[OF h] ok' obtain st' where
    u: "update_cache example_settings example_env None initial_state =
          (Inr (clock example_env), st')"
    and l: "\<forall>p \<in> set [?p1, ?p2, ?p3]. \<forall>page_id n.
            map_of p ''id'' = Some page_id \<longrightarrow> uid_of_page_id page_id = Some n \<longrightarrow>
            pages_info example_env (wiki_path example_settings @ format_03d n) = Inr [] \<longrightarrow>
            PageDoesNotExist (wiki_path example_settings @ format_03d n) \<in> set (stdout st')"
    by blast
  have "?p3 \<in> set [?p1, ?p2, ?p3]" by simp
  with l m v i n have g: "PageDoesNotExist ''lab:ausstattung:043'' \<in> set (stdout st')"
    by metis
  have h2: "changed_item_pages example_settings failing_env None initial_state =
     (Inr [?p1, ?p2, ?p3], initial_state)"
    by code_simp
  have ok2: "list_all (\<lambda>p. \<not> raises (page_outcome example_settings failing_env p)) [?p1, ?p2]"
    by code_simp
  then have ok2': "\<forall>q \<in> set [?p1, ?p2]. \<not> raises (page_outcome example_settings failing_env q)"
    by (simp only: list_all_iff)
  have o: "page_outcome example_settings failing_env ?p3 = Inl DokuWikiError" by code_simp
  have sp: "[?p1, ?p2, ?p3] = [?p1, ?p2] @ ?p3 # []" by simp
  from refresh_completes_unless_a_fetch_raises[OF h2] sp ok2' o
  have f: "fst (update_cache example_settings failing_env None initial_state) = Inl DokuWikiError"
    by blast
  from h ok i u c g o f show ?thesis by simp
qed

text \<open>
  Claim C3 fails as stated: with a transport failure on the existence check of one listed
  page, the whole refresh fails with \<^verbatim>\<open>DokuWikiError\<close>.
\<close>

theorem refresh_transport_error_counterexample:
  "pages_list failing_env (wiki_path example_settings) =
     Inr [[(''id'', ''lab:ausstattung:042'')], [(''id'', ''lab:ausstattung:readme'')],
          [(''id'', ''lab:ausstattung:043'')]] \<and>
   pages_info failing_env ''lab:ausstattung:043'' = Inl DokuWikiError \<and>
   fst (update_cache example_settings failing_env None initial_state) = Inl DokuWikiError"
  by code_simp

end
